theory Spec2Isabelle
  imports Main "HOL-Library.Sublist"
begin

section \<open>Python values that the code formats and prints\<close>

text \<open>
  \<^verbatim>\<open>str(n)\<close> of a non-negative integer: its decimal digits.
\<close>

fun str_nat :: "nat \<Rightarrow> string" where
  "str_nat n = (if n < 10 then [char_of (48 + n)] else str_nat (n div 10) @ [char_of (48 + n mod 10)])"

declare str_nat.simps [simp del]

definition str_int :: "int \<Rightarrow> string" where
  "str_int i = (if i < 0 then CHR ''-'' # str_nat (nat (- i)) else str_nat (nat i))"

definition str_bool :: "bool \<Rightarrow> string" where
  "str_bool b = (if b then ''True'' else ''False'')"

text \<open>\<^verbatim>\<open>sep.join(xs)\<close> on a list of strings.\<close>

fun join :: "string \<Rightarrow> string list \<Rightarrow> string" where
  "join sep [] = []"
| "join sep [x] = x"
| "join sep (x # y # ys) = x @ sep @ join sep (y # ys)"

section \<open>The data the pipeline stages exchange\<close>

text \<open>
  The three agents are imported by \<^verbatim>\<open>cli.py\<close> from modules that are not among the
  sources; the driver reads their results as dictionaries. Each result is a record here,
  with the keys the driver reads: \<^verbatim>\<open>success\<close>, \<^verbatim>\<open>iterations\<close>, \<^verbatim>\<open>summary\<close> and
  \<^verbatim>\<open>observations\<close> of the exploration result, \<^verbatim>\<open>category\<close> and \<^verbatim>\<open>observation\<close> of
  each of its entries; \<^verbatim>\<open>success\<close> and \<^verbatim>\<open>specification\<close> of the synthesis result,
  \<^verbatim>\<open>endpoints\<close> and \<^verbatim>\<open>database\<close>, \<^verbatim>\<open>tables\<close> of a specification (read with
  \<^verbatim>\<open>get\<close> and an empty default, so a missing key is the empty list);
  \<^verbatim>\<open>success\<close> and \<^verbatim>\<open>generated_files\<close> of the generation result. Record fields share
  one name space, so the flags of the two later results are \<open>spec_success\<close> and
  \<open>code_success\<close>, and the specification of a synthesis result is \<open>spec_specification\<close>.
\<close>

text \<open>
  Modelled from the spec: the seven categories of an observation, its source path and
  iteration index, and the fields of an endpoint and of a table are those of the data
  model; the driver does not read them.
\<close>

datatype category = Endpoint | Schema | Error | Auth | Pagination | Relationship | Other

fun str_category :: "category \<Rightarrow> string" where
  "str_category Endpoint = ''endpoint''"
| "str_category Schema = ''schema''"
| "str_category Error = ''error''"
| "str_category Auth = ''auth''"
| "str_category Pagination = ''pagination''"
| "str_category Relationship = ''relationship''"
| "str_category Other = ''other''"

record observation =
  category :: category
  observation :: string
  source_path :: string
  iteration_index :: nat

record exploration_result =
  success :: bool
  iterations :: int
  summary :: string
  observations :: "observation list"

record endpoint_spec =
  path_template :: string
  http_method :: string
  parameters :: "string list"
  response_shape :: string
  table_refs :: "string list"

record table_spec =
  table_name :: string
  table_columns :: "(string \<times> string) list"
  table_relationships :: "string list"

record database =
  tables :: "table_spec list"

record api_spec =
  endpoints :: "endpoint_spec list"
  database :: database

record spec_result =
  spec_success :: bool
  spec_specification :: api_spec

record scaffold_result =
  code_success :: bool
  generated_files :: "string list"

section \<open>The driver: \<^verbatim>\<open>main\<close> of \<^verbatim>\<open>src/cli.py\<close>\<close>

text \<open>
  The model of \<^verbatim>\<open>main\<close> starts where \<^verbatim>\<open>parser.parse_args()\<close> has returned: its
  input is the parsed argument namespace. \<^verbatim>\<open>command\<close> is one of the two choices
  that argparse admits. The statements before that point, \<^verbatim>\<open>load_dotenv()\<close> and the
  parsing itself, are put in front of it by \<open>main_entry\<close> further down.
\<close>

datatype command = Clone | Explore

record args =
  command :: command
  target_url :: string
  output_arg :: string
  endpoints_arg :: "string list option"
  max_iterations :: int

text \<open>
  What \<^verbatim>\<open>main\<close> reads and calls from outside: the process environment as
  \<^verbatim>\<open>os.getenv\<close> sees it once \<^verbatim>\<open>load_dotenv()\<close> has run, and the three stage
  operations of the agents, each given the arguments the driver passes (the gateway client
  is identified by the key it was built with). A stage operation hands back a result, as
  the stage contract has it; the runs modelled are those in which the calls into the
  libraries and the agents return.
\<close>

record world =
  environ :: "string \<rightharpoonup> string"
  ExplorationAgent_explore :: "string \<Rightarrow> string \<Rightarrow> int \<Rightarrow> string list option \<Rightarrow> exploration_result"
  SpecificationAgent_generate_spec :: "string \<Rightarrow> observation list \<Rightarrow> string \<Rightarrow> spec_result"
  CodeGeneratorAgent_generate_code :: "string \<Rightarrow> string \<Rightarrow> api_spec \<Rightarrow> scaffold_result"

text \<open>
  Everything \<^verbatim>\<open>main\<close> does that can be seen from outside, in program order: a line
  printed, an object constructed, a stage operation called and returned from, a directory
  created. The emoji that open some of the printed messages are not ASCII and are left out
  of the printed text.
\<close>

datatype event =
    Print string
  | New_LLMClient string
  | New_ExplorationAgent string int
  | Call_explore "string list option"
  | Return_explore exploration_result
  | New_SpecificationAgent
  | Call_generate_spec "observation list" string
  | Return_generate_spec spec_result
  | Makedirs string
  | New_CodeGeneratorAgent string
  | Call_generate_code api_spec
  | Return_generate_code scaffold_result

text \<open>
  How \<^verbatim>\<open>main\<close> ends: it returns (the interpreter then exits with status 0), or
  \<^verbatim>\<open>sys.exit(n)\<close> ends the process with status \<open>n\<close>.
\<close>

datatype outcome = Returned | SysExit nat

fun exit_code :: "outcome \<Rightarrow> nat" where
  "exit_code Returned = 0"
| "exit_code (SysExit n) = n"

text \<open>
  \<^verbatim>\<open>os.path.join(a, b)\<close> for two components on a POSIX system: an absolute \<open>b\<close>
  replaces \<open>a\<close>; otherwise a separator is inserted unless \<open>a\<close> is empty or ends with one.
\<close>

definition path_join :: "string \<Rightarrow> string \<Rightarrow> string" where
  "path_join a b =
     (if b \<noteq> [] \<and> hd b = CHR ''/'' then b
      else if a = [] \<or> last a = CHR ''/'' then a @ b
      else a @ ''/'' @ b)"

definition banner :: string where
  "banner = CHR 0x0A # replicate 70 (CHR ''='')"

definition rule_line :: string where
  "rule_line = replicate 70 (CHR ''='') @ [CHR 0x0A]"

text \<open>The lines of the loop over \<^verbatim>\<open>enumerate(observations, 1)\<close>.\<close>

fun observation_lines :: "nat \<Rightarrow> observation list \<Rightarrow> event list" where
  "observation_lines i [] = []"
| "observation_lines i (obs # rest) =
     Print (''  '' @ str_nat i @ ''. ['' @ str_category (category obs) @ ''] '' @ observation obs)
       # observation_lines (Suc i) rest"

text \<open>
  The body of \<^verbatim>\<open>main\<close> is cut into the stretches between its stage calls, each
  giving the events of its statements in order: Phase 1 up to the call of
  \<^verbatim>\<open>explore\<close>; the report on the exploration result; Phase 2 up to the call of
  \<^verbatim>\<open>generate_spec\<close>; Phase 3 up to the call of \<^verbatim>\<open>generate_code\<close>; the closing
  messages.
\<close>

definition phase1_events :: "string \<Rightarrow> args \<Rightarrow> event list" where
  "phase1_events api_key a =
     [New_LLMClient api_key,
      Print banner, Print ''PHASE 1: AUTONOMOUS API EXPLORATION'', Print rule_line]
     @ (case endpoints_arg a of
          None \<Rightarrow> []
        | Some es \<Rightarrow> if es = [] then [] else [Print (''Starting endpoints: '' @ join '', '' es)])
     @ [Print (''Max iterations: '' @ str_int (max_iterations a) @ [CHR 0x0A]),
        New_ExplorationAgent (target_url a) (max_iterations a),
        Call_explore (endpoints_arg a)]"

definition report_events :: "exploration_result \<Rightarrow> event list" where
  "report_events exploration_result =
     [Print banner, Print ''EXPLORATION RESULTS'', Print rule_line,
      Print (''Success: '' @ str_bool (success exploration_result)),
      Print (''Iterations: '' @ str_int (iterations exploration_result)),
      Print ([CHR 0x0A] @ ''Summary:'' @ [CHR 0x0A] @ summary exploration_result @ [CHR 0x0A])]
     @ (if observations exploration_result \<noteq> [] then
          Print (''Observations ('' @ str_nat (length (observations exploration_result)) @ ''):'')
            # observation_lines 1 (observations exploration_result)
        else [])"

definition phase2_events :: "exploration_result \<Rightarrow> args \<Rightarrow> event list" where
  "phase2_events exploration_result a =
     [Print banner, Print ''PHASE 2: SPECIFICATION GENERATION'', Print rule_line,
      New_SpecificationAgent,
      Call_generate_spec (observations exploration_result) (target_url a)]"

definition phase3_events :: "api_spec \<Rightarrow> string \<Rightarrow> event list" where
  "phase3_events spec output_dir =
     [Print ''Specification generated successfully!'',
      Print (''   Endpoints: '' @ str_nat (length (endpoints spec))),
      Print (''   Tables: '' @ str_nat (length (tables (database spec)))),
      Print banner, Print ''PHASE 3: FLEET ENVIRONMENT GENERATION'', Print rule_line,
      Makedirs output_dir,
      Print (''Output directory: '' @ output_dir @ [CHR 0x0A]),
      New_CodeGeneratorAgent output_dir,
      Call_generate_code spec]"

definition complete_events :: "scaffold_result \<Rightarrow> string \<Rightarrow> event list" where
  "complete_events code_result output_dir =
     [Print ([CHR 0x0A] @ ''Code generation complete!''),
      Print (''   Generated '' @ str_nat (length (generated_files code_result)) @ '' files:'')]
     @ map (\<lambda>file. Print (''   - '' @ file)) (generated_files code_result)
     @ [Print banner, Print ''CLONING COMPLETE!'', Print rule_line,
        Print (''Fleet environment created at: '' @ output_dir),
        Print ([CHR 0x0A] @ ''Next steps:''),
        Print (''   cd '' @ output_dir),
        Print ''   pnpm install'',
        Print ''   pnpm run dev'',
        Print ([CHR 0x0A] @ ''The environment follows Fleet standards:''),
        Print ''   - Uses current.sqlite (auto-copied from seed.db)'',
        Print ''   - Supports DATABASE_PATH/ENV_DB_DIR environment variables'',
        Print ''   - Includes MCP server for LLM interaction'',
        Print ''   - Runs with mprocs for multi-process development'',
        Print []]"

text \<open>
  \<^verbatim>\<open>if not api_key\<close> holds for a variable that is unset and for one set to the empty
  string.
\<close>

definition main :: "world \<Rightarrow> args \<Rightarrow> event list \<times> outcome" where
  "main w a =
    (case environ w ''ANTHROPIC_API_KEY'' of
       None \<Rightarrow> ([Print ''Error: ANTHROPIC_API_KEY environment variable not set''], SysExit 1)
     | Some api_key \<Rightarrow>
     if api_key = [] then
       ([Print ''Error: ANTHROPIC_API_KEY environment variable not set''], SysExit 1)
     else
     let exploration_result =
           ExplorationAgent_explore w api_key (target_url a) (max_iterations a) (endpoints_arg a);
         t1 = phase1_events api_key a @ [Return_explore exploration_result]
              @ report_events exploration_result
     in
     if command a = Explore then (t1 @ [Print []], Returned)
     else
     let spec_result =
           SpecificationAgent_generate_spec w api_key (observations exploration_result) (target_url a);
         t2 = t1 @ phase2_events exploration_result a @ [Return_generate_spec spec_result]
     in
     if \<not> spec_success spec_result then
       (t2 @ [Print ''Failed to generate specification''], SysExit 1)
     else
     let spec = spec_specification spec_result;
         output_dir = path_join (output_arg a) ''cloned-env'';
         code_result = CodeGeneratorAgent_generate_code w api_key output_dir spec;
         t3 = t2 @ phase3_events spec output_dir @ [Return_generate_code code_result]
     in
     if \<not> code_success code_result then
       (t3 @ [Print ''Failed to generate code''], SysExit 1)
     else
       (t3 @ complete_events code_result output_dir, Returned))"

subsection \<open>The first statements of \<^verbatim>\<open>main\<close>: \<^verbatim>\<open>load_dotenv()\<close> and \<^verbatim>\<open>parse_args()\<close>\<close>

text \<open>
  \<^verbatim>\<open>load_dotenv()\<close> of python-dotenv, called without arguments: every variable that
  the \<^verbatim>\<open>.env\<close> file defines and that the process environment does not hold is added to
  the environment; a variable that is already set keeps its value. When no file is found
  the definitions are empty.
\<close>

definition load_dotenv :: "(string \<rightharpoonup> string) \<Rightarrow> (string \<rightharpoonup> string) \<Rightarrow> (string \<rightharpoonup> string)" where
  "load_dotenv dotenv env = (\<lambda>name. case env name of Some v \<Rightarrow> Some v | None \<Rightarrow> dotenv name)"

text \<open>
  A process that runs \<^verbatim>\<open>main\<close>: its environment at entry, the definitions of the
  \<^verbatim>\<open>.env\<close> file, and what \<^verbatim>\<open>parser.parse_args()\<close> of argparse does on its command
  line, which is to end the process with a status (2 after a usage error, 0 after printing
  the help) or to return the namespace. What argparse itself prints is not part of the
  trace.
\<close>

record process =
  os_environ :: "string \<rightharpoonup> string"
  dotenv_file :: "string \<rightharpoonup> string"
  parse_args :: "nat + args"

text \<open>
  \<^verbatim>\<open>main\<close> from its first statement: \<^verbatim>\<open>load_dotenv()\<close>, then the parser and
  \<^verbatim>\<open>parse_args()\<close>, then the statements from \<^verbatim>\<open>os.getenv\<close> on, which are \<open>main\<close>
  above run on the environment that \<^verbatim>\<open>load_dotenv()\<close> has left. Of the world only the
  stage operations are used.
\<close>

definition main_entry :: "process \<Rightarrow> world \<Rightarrow> event list \<times> outcome" where
  "main_entry p w =
     (let env = load_dotenv (dotenv_file p) (os_environ p) in
      case parse_args p of
        Inl status \<Rightarrow> ([], SysExit status)
      | Inr a \<Rightarrow> main (w\<lparr>environ := env\<rparr>) a)"

subsection \<open>The stage operations within a run\<close>

datatype stage = Exploration | Synthesis | Generation

datatype stage_step = Started stage | Finished stage

fun stage_step_of :: "event \<Rightarrow> stage_step option" where
  "stage_step_of (Call_explore _) = Some (Started Exploration)"
| "stage_step_of (Return_explore _) = Some (Finished Exploration)"
| "stage_step_of (Call_generate_spec _ _) = Some (Started Synthesis)"
| "stage_step_of (Return_generate_spec _) = Some (Finished Synthesis)"
| "stage_step_of (Call_generate_code _) = Some (Started Generation)"
| "stage_step_of (Return_generate_code _) = Some (Finished Generation)"
| "stage_step_of _ = None"

text \<open>The calls of and returns from stage operations in a trace, in the order they happen.\<close>

fun stage_steps :: "event list \<Rightarrow> stage_step list" where
  "stage_steps [] = []"
| "stage_steps (e # es) =
     (case stage_step_of e of None \<Rightarrow> stage_steps es | Some s \<Rightarrow> s # stage_steps es)"

definition pipeline_order :: "stage_step list" where
  "pipeline_order =
     [Started Exploration, Finished Exploration,
      Started Synthesis, Finished Synthesis,
      Started Generation, Finished Generation]"

fun is_print :: "event \<Rightarrow> bool" where
  "is_print (Print _) = True"
| "is_print _ = False"

subsection \<open>Worlds and arguments to run the driver on\<close>

text \<open>
  A world for running the driver on concrete inputs: the credential is set, exploration
  records nothing and reports failure, the two later stages succeed.
\<close>

definition failed_exploration :: exploration_result where
  "failed_exploration =
     \<lparr>success = False, iterations = 1, summary = ''nothing found'', observations = []\<rparr>"

definition empty_spec :: api_spec where
  "empty_spec = \<lparr>endpoints = [], database = \<lparr>tables = []\<rparr>\<rparr>"

definition sample_world :: world where
  "sample_world =
     \<lparr>environ = [''ANTHROPIC_API_KEY'' \<mapsto> ''sk-test''],
      ExplorationAgent_explore = (\<lambda>key url n es. failed_exploration),
      SpecificationAgent_generate_spec =
        (\<lambda>key obs url. \<lparr>spec_success = True, spec_specification = empty_spec\<rparr>),
      CodeGeneratorAgent_generate_code =
        (\<lambda>key dir sp. \<lparr>code_success = True, generated_files = [dir @ ''/client.py'']\<rparr>)\<rparr>"

definition failed_spec_world :: world where
  "failed_spec_world = sample_world\<lparr>SpecificationAgent_generate_spec :=
      (\<lambda>key obs url. \<lparr>spec_success = False, spec_specification = empty_spec\<rparr>)\<rparr>"

definition failed_code_world :: world where
  "failed_code_world = sample_world\<lparr>CodeGeneratorAgent_generate_code :=
      (\<lambda>key dir sp. \<lparr>code_success = False, generated_files = []\<rparr>)\<rparr>"

definition explore_args :: args where
  "explore_args =
     \<lparr>command = Explore, target_url = ''http://localhost:3001'', output_arg = ''./output'',
      endpoints_arg = None, max_iterations = 100\<rparr>"

definition clone_args :: args where
  "clone_args = explore_args\<lparr>command := Clone\<rparr>"

text \<open>
  Three processes in which the variable \<^verbatim>\<open>ANTHROPIC_API_KEY\<close> is unset at entry: one
  without a \<^verbatim>\<open>.env\<close> file and with the command line
  \<^verbatim>\<open>clone http://localhost:3001\<close>; one whose \<^verbatim>\<open>.env\<close> file defines the variable, with
  the command line \<^verbatim>\<open>explore http://localhost:3001\<close>; one started without arguments,
  for which argparse reports the missing positional arguments and exits with status 2.
\<close>

definition no_key_process :: process where
  "no_key_process =
     \<lparr>os_environ = Map.empty, dotenv_file = Map.empty, parse_args = Inr clone_args\<rparr>"

definition dotenv_process :: process where
  "dotenv_process =
     \<lparr>os_environ = Map.empty, dotenv_file = [''ANTHROPIC_API_KEY'' \<mapsto> ''sk-test''],
      parse_args = Inr explore_args\<rparr>"

definition usage_error_process :: process where
  "usage_error_process =
     \<lparr>os_environ = Map.empty, dotenv_file = Map.empty, parse_args = Inl 2\<rparr>"

section \<open>Python values in the generated client and server\<close>

text \<open>
  The values that \<^verbatim>\<open>response.json()\<close> returns and that arrive as tool arguments.
  Text is ASCII; numbers are integers (a JSON number with a fraction is outside the
  model). A dictionary is the list of its items in insertion order, its keys distinct.
\<close>

datatype json =
    JNull
  | JBool bool
  | JInt int
  | JStr string
  | JList "json list"
  | JObj "(string \<times> json) list"

text \<open>
  An exception is its class and the text \<^verbatim>\<open>str(e)\<close> gives. \<open>HTTPError\<close> stands for
  \<^verbatim>\<open>httpx.HTTPError\<close> and its subclasses, \<open>PlainException\<close> for an instance of
  \<^verbatim>\<open>Exception\<close> itself, \<open>OtherError\<close> for any further subclass of \<^verbatim>\<open>Exception\<close>.
  All of them are subclasses of \<^verbatim>\<open>Exception\<close>: signals outside that class
  (cancellation of the task, a keyboard interrupt) are not modelled.
\<close>

datatype exc_class =
  HTTPError | KeyError | TypeError | AttributeError | ValueError | PlainException | OtherError

datatype exn = Exn exc_class string

fun exc_class_of :: "exn \<Rightarrow> exc_class" where
  "exc_class_of (Exn c m) = c"

fun message :: "exn \<Rightarrow> string" where
  "message (Exn c m) = m"

definition bind_exn :: "exn + 'a \<Rightarrow> ('a \<Rightarrow> exn + 'b) \<Rightarrow> exn + 'b" where
  "bind_exn m f = (case m of Inl e \<Rightarrow> Inl e | Inr v \<Rightarrow> f v)"

fun type_name :: "json \<Rightarrow> string" where
  "type_name JNull = ''NoneType''"
| "type_name (JBool _) = ''bool''"
| "type_name (JInt _) = ''int''"
| "type_name (JStr _) = ''str''"
| "type_name (JList _) = ''list''"
| "type_name (JObj _) = ''dict''"

definition hex_digit :: "nat \<Rightarrow> char" where
  "hex_digit n = (if n < 10 then char_of (48 + n) else char_of (87 + n))"

text \<open>
  \<^verbatim>\<open>repr\<close> of a string: single quotes, unless the text holds a single quote and no
  double quote; the quote in use and the backslash are escaped, a control character is
  written as its escape.
\<close>

definition repr_char :: "char \<Rightarrow> char \<Rightarrow> string" where
  "repr_char quote c =
     (let n = (of_char c :: nat) in
      if c = quote \<or> c = CHR 0x5C then [CHR 0x5C, c]
      else if n = 9 then [CHR 0x5C, CHR ''t'']
      else if n = 10 then [CHR 0x5C, CHR ''n'']
      else if n = 13 then [CHR 0x5C, CHR ''r'']
      else if n < 32 \<or> n = 127 then [CHR 0x5C, CHR ''x'', hex_digit (n div 16), hex_digit (n mod 16)]
      else [c])"

definition repr_str :: "string \<Rightarrow> string" where
  "repr_str s =
     (let quote = (if CHR 0x27 \<in> set s \<and> CHR 0x22 \<notin> set s then CHR 0x22 else CHR 0x27)
      in [quote] @ concat (map (repr_char quote) s) @ [quote])"

fun repr :: "json \<Rightarrow> string" where
  "repr JNull = ''None''"
| "repr (JBool b) = str_bool b"
| "repr (JInt i) = str_int i"
| "repr (JStr s) = repr_str s"
| "repr (JList xs) = ''['' @ join '', '' (map repr xs) @ '']''"
| "repr (JObj kvs) = ''{'' @ join '', '' (map (\<lambda>(k, v). repr_str k @ '': '' @ repr v) kvs) @ ''}''"

text \<open>\<^verbatim>\<open>str(v)\<close>, which is what a replacement field of an f-string inserts.\<close>

fun py_str :: "json \<Rightarrow> string" where
  "py_str (JStr s) = s"
| "py_str v = repr v"

text \<open>Truth value testing: \<^verbatim>\<open>if v\<close>, \<^verbatim>\<open>not v\<close>.\<close>

fun truthy :: "json \<Rightarrow> bool" where
  "truthy JNull = False"
| "truthy (JBool b) = b"
| "truthy (JInt i) = (i \<noteq> 0)"
| "truthy (JStr s) = (s \<noteq> [])"
| "truthy (JList xs) = (xs \<noteq> [])"
| "truthy (JObj kvs) = (kvs \<noteq> [])"

definition quoted :: "string \<Rightarrow> string" where
  "quoted s = [CHR 0x27] @ s @ [CHR 0x27]"

text \<open>
  The errors the interpreter raises on a value of the wrong type. Their texts are those of
  CPython 3.11; no property below depends on the wording.
\<close>

definition attribute_error :: "json \<Rightarrow> string \<Rightarrow> exn" where
  "attribute_error v attr =
     Exn AttributeError (quoted (type_name v) @ '' object has no attribute '' @ quoted attr)"

text \<open>\<^verbatim>\<open>d.get(key, default)\<close>: a method of dictionaries only.\<close>

fun dict_get :: "json \<Rightarrow> string \<Rightarrow> json \<Rightarrow> exn + json" where
  "dict_get (JObj kvs) key dflt = Inr (case map_of kvs key of None \<Rightarrow> dflt | Some v \<Rightarrow> v)"
| "dict_get v key dflt = Inl (attribute_error v ''get'')"

text \<open>\<^verbatim>\<open>v[key]\<close> with a string key.\<close>

fun subscript :: "json \<Rightarrow> string \<Rightarrow> exn + json" where
  "subscript (JObj kvs) key =
     (case map_of kvs key of None \<Rightarrow> Inl (Exn KeyError (repr_str key)) | Some v \<Rightarrow> Inr v)"
| "subscript (JList xs) key = Inl (Exn TypeError ''list indices must be integers or slices, not str'')"
| "subscript (JStr s) key = Inl (Exn TypeError (''string indices must be integers, not '' @ quoted ''str''))"
| "subscript v key = Inl (Exn TypeError (quoted (type_name v) @ '' object is not subscriptable''))"

text \<open>
  The items a \<^verbatim>\<open>for\<close> loop runs over: the elements of a list, the characters of a
  string, the keys of a dictionary.
\<close>

fun iterate :: "json \<Rightarrow> exn + json list" where
  "iterate (JList xs) = Inr xs"
| "iterate (JStr s) = Inr (map (\<lambda>c. JStr [c]) s)"
| "iterate (JObj kvs) = Inr (map (\<lambda>kv. JStr (fst kv)) kvs)"
| "iterate v = Inl (Exn TypeError (quoted (type_name v) @ '' object is not iterable''))"

fun py_len :: "json \<Rightarrow> exn + nat" where
  "py_len (JList xs) = Inr (length xs)"
| "py_len (JStr s) = Inr (length s)"
| "py_len (JObj kvs) = Inr (length kvs)"
| "py_len v = Inl (Exn TypeError (''object of type '' @ quoted (type_name v) @ '' has no len()''))"

text \<open>\<^verbatim>\<open>sep.join(v)\<close>: every item of \<open>v\<close> has to be a string.\<close>

fun join_items :: "nat \<Rightarrow> json list \<Rightarrow> exn + string list" where
  "join_items i [] = Inr []"
| "join_items i (JStr s # rest) = bind_exn (join_items (Suc i) rest) (\<lambda>ss. Inr (s # ss))"
| "join_items i (v # rest) =
     Inl (Exn TypeError (''sequence item '' @ str_nat i @ '': expected str instance, ''
                          @ type_name v @ '' found''))"

definition py_join :: "string \<Rightarrow> json \<Rightarrow> exn + string" where
  "py_join sep v =
     (case iterate v of
        Inl e \<Rightarrow> Inl (Exn TypeError ''can only join an iterable'')
      | Inr items \<Rightarrow> bind_exn (join_items 0 items) (\<lambda>ss. Inr (join sep ss)))"

text \<open>\<^verbatim>\<open>s.lower()\<close> on ASCII text, a method of strings only.\<close>

definition lower_char :: "char \<Rightarrow> char" where
  "lower_char c = (let n = (of_char c :: nat) in if 65 \<le> n \<and> n \<le> 90 then char_of (n + 32) else c)"

fun py_lower :: "json \<Rightarrow> exn + string" where
  "py_lower (JStr s) = Inr (map lower_char s)"
| "py_lower v = Inl (attribute_error v ''lower'')"

text \<open>
  \<^verbatim>\<open>n >= limit\<close> for an integer \<open>n\<close>: defined against an integer and a boolean
  (\<^verbatim>\<open>True\<close> is 1, \<^verbatim>\<open>False\<close> is 0), a type error against anything else.
\<close>

fun int_ge :: "int \<Rightarrow> json \<Rightarrow> exn + bool" where
  "int_ge n (JInt m) = Inr (n \<ge> m)"
| "int_ge n (JBool b) = Inr (n \<ge> (if b then 1 else 0))"
| "int_ge n v =
     Inl (Exn TypeError (quoted ''>='' @ '' not supported between instances of '' @ quoted ''int''
                          @ '' and '' @ quoted (type_name v)))"

section \<open>The generated client: \<^verbatim>\<open>RealWorldAPIClient\<close> of \<^verbatim>\<open>client.py\<close>\<close>

record client =
  app_env :: string
  base_url :: string
  api_url :: string

definition getenv_default :: "(string \<rightharpoonup> string) \<Rightarrow> string \<Rightarrow> string \<Rightarrow> string" where
  "getenv_default env name dflt = (case env name of None \<Rightarrow> dflt | Some v \<Rightarrow> v)"

definition client_init :: "(string \<rightharpoonup> string) \<Rightarrow> client" where
  "client_init env =
     (let app_env = getenv_default env ''APP_ENV'' ''local'';
          base_url = (if app_env = ''local''
                      then getenv_default env ''API_BASE_URL'' ''http://localhost:3002''
                      else getenv_default env ''API_BASE_URL'' ''https://your-production-api.com'')
      in \<lparr>app_env = app_env, base_url = base_url, api_url = base_url @ ''/api''\<rparr>)"

text \<open>
  The HTTP layer under the client. A request made through \<^verbatim>\<open>httpx.AsyncClient\<close> with
  a timeout (in seconds), a method, a URL and keyword arguments either raises or yields a
  response; of a response the client uses the status code, the text of the error that
  \<^verbatim>\<open>raise_for_status()\<close> raises for it, and what \<^verbatim>\<open>json()\<close> makes of the body: a
  value, or an error when the body is not JSON.
\<close>

record response =
  status_code :: nat
  status_error :: string
  body :: "exn + json"

datatype http_result = Raises exn | Responds response

type_synonym kwargs = "(string \<times> json) list"

type_synonym http = "nat \<Rightarrow> string \<Rightarrow> string \<Rightarrow> kwargs \<Rightarrow> http_result"

text \<open>
  \<^verbatim>\<open>response.raise_for_status()\<close> of httpx: it raises \<^verbatim>\<open>HTTPStatusError\<close>, a subclass
  of \<^verbatim>\<open>HTTPError\<close>, unless the status code is one of 200 to 299.
\<close>

definition is_success :: "response \<Rightarrow> bool" where
  "is_success r = (200 \<le> status_code r \<and> status_code r \<le> 299)"

definition raise_for_status :: "response \<Rightarrow> exn + response" where
  "raise_for_status r = (if is_success r then Inr r else Inl (Exn HTTPError (status_error r)))"

text \<open>The body of the \<^verbatim>\<open>try\<close> statement in \<^verbatim>\<open>_request\<close> and in \<^verbatim>\<open>health_check\<close>.\<close>

definition send :: "http \<Rightarrow> nat \<Rightarrow> string \<Rightarrow> string \<Rightarrow> kwargs \<Rightarrow> exn + json" where
  "send h timeout method url kw =
     (case h timeout method url kw of
        Raises e \<Rightarrow> Inl e
      | Responds r \<Rightarrow> bind_exn (raise_for_status r) (\<lambda>r. body r))"

text \<open>
  \<^verbatim>\<open>_request\<close>: the first handler takes \<^verbatim>\<open>httpx.HTTPError\<close>, the second every other
  exception; each raises a new \<^verbatim>\<open>Exception\<close>.
\<close>

definition request :: "http \<Rightarrow> client \<Rightarrow> string \<Rightarrow> string \<Rightarrow> kwargs \<Rightarrow> exn + json" where
  "request h c method path kw =
     (let url = api_url c @ path in
      case send h 30 method url kw of
        Inr v \<Rightarrow> Inr v
      | Inl e \<Rightarrow>
          if exc_class_of e = HTTPError
          then Inl (Exn PlainException (''API request failed: '' @ message e))
          else Inl (Exn PlainException (''Request error: '' @ message e)))"

definition get_articles :: "http \<Rightarrow> client \<Rightarrow> json \<Rightarrow> json \<Rightarrow> json \<Rightarrow> json \<Rightarrow> json \<Rightarrow> exn + json" where
  "get_articles h c tag author favorited limit offset =
     (let params = [(''limit'', limit), (''offset'', offset)]
                   @ (if truthy tag then [(''tag'', tag)] else [])
                   @ (if truthy author then [(''author'', author)] else [])
                   @ (if truthy favorited then [(''favorited'', favorited)] else [])
      in request h c ''GET'' ''/articles'' [(''params'', JObj params)])"

definition get_article :: "http \<Rightarrow> client \<Rightarrow> json \<Rightarrow> exn + json" where
  "get_article h c slug = request h c ''GET'' (''/articles/'' @ py_str slug) []"

definition get_article_comments :: "http \<Rightarrow> client \<Rightarrow> json \<Rightarrow> exn + json" where
  "get_article_comments h c slug = request h c ''GET'' (''/articles/'' @ py_str slug @ ''/comments'') []"

definition get_profile :: "http \<Rightarrow> client \<Rightarrow> json \<Rightarrow> exn + json" where
  "get_profile h c username = request h c ''GET'' (''/profiles/'' @ py_str username) []"

definition get_tags :: "http \<Rightarrow> client \<Rightarrow> exn + json" where
  "get_tags h c = request h c ''GET'' ''/tags'' []"

definition health_check :: "http \<Rightarrow> client \<Rightarrow> exn + json" where
  "health_check h c =
     (let url = base_url c @ ''/health'' in
      case send h 10 ''GET'' url [] of
        Inr v \<Rightarrow> Inr v
      | Inl e \<Rightarrow> Inl (Exn PlainException (''Health check failed: '' @ message e)))"

subsection \<open>\<^verbatim>\<open>search_articles\<close>\<close>

text \<open>
  The condition of the loop body: \<^verbatim>\<open>or\<close> evaluates its right operand only when the
  left one is false, so a field after the first matching one is not looked at.
\<close>

definition field_contains :: "string \<Rightarrow> json \<Rightarrow> string \<Rightarrow> exn + bool" where
  "field_contains query_lower article key =
     bind_exn (dict_get article key (JStr [])) (\<lambda>v.
     bind_exn (py_lower v) (\<lambda>s. Inr (sublist query_lower s)))"

definition article_matches :: "string \<Rightarrow> json \<Rightarrow> exn + bool" where
  "article_matches query_lower article =
     bind_exn (field_contains query_lower article ''title'') (\<lambda>t.
       if t then Inr True else
     bind_exn (field_contains query_lower article ''description'') (\<lambda>d.
       if d then Inr True else
     field_contains query_lower article ''body''))"

text \<open>
  The \<^verbatim>\<open>for\<close> loop, with \<^verbatim>\<open>matching_articles\<close> as the accumulator; \<^verbatim>\<open>break\<close> ends it
  with the articles collected so far.
\<close>

fun search_loop :: "string \<Rightarrow> json \<Rightarrow> json list \<Rightarrow> json list \<Rightarrow> exn + json list" where
  "search_loop query_lower limit [] matching_articles = Inr matching_articles"
| "search_loop query_lower limit (article # rest) matching_articles =
     bind_exn (article_matches query_lower article) (\<lambda>m.
       if m then
         (let matching_articles = matching_articles @ [article] in
          bind_exn (int_ge (int (length matching_articles)) limit) (\<lambda>full.
            if full then Inr matching_articles
            else search_loop query_lower limit rest matching_articles))
       else search_loop query_lower limit rest matching_articles)"

definition search_articles :: "http \<Rightarrow> client \<Rightarrow> json \<Rightarrow> json \<Rightarrow> exn + json" where
  "search_articles h c query limit =
     bind_exn (get_articles h c JNull JNull JNull (JInt 50) (JInt 0)) (\<lambda>articles.
     bind_exn (dict_get articles ''articles'' JNull) (\<lambda>page.
       if \<not> truthy page then Inr (JObj [(''articles'', JList []), (''articlesCount'', JInt 0)])
       else
     bind_exn (py_lower query) (\<lambda>query_lower.
     bind_exn (subscript articles ''articles'') (\<lambda>page.
     bind_exn (iterate page) (\<lambda>items.
     bind_exn (search_loop query_lower limit items []) (\<lambda>matching_articles.
       Inr (JObj [(''articles'', JList matching_articles),
                  (''articlesCount'', JInt (int (length matching_articles)))])))))))"


section \<open>The generated tool server: \<^verbatim>\<open>call_tool\<close> of \<^verbatim>\<open>server.py\<close>\<close>

text \<open>
  A result item is the dictionary \<^verbatim>\<open>{"type": "text", "text": t}\<close>; the tool arguments
  are a dictionary from names to values.
\<close>

type_synonym item = "(string \<times> string) list"

definition text_item :: "string \<Rightarrow> item" where
  "text_item t = [(''type'', ''text''), (''text'', t)]"

definition args_get :: "kwargs \<Rightarrow> string \<Rightarrow> json \<Rightarrow> json" where
  "args_get arguments key dflt = (case map_of arguments key of None \<Rightarrow> dflt | Some v \<Rightarrow> v)"

definition args_subscript :: "kwargs \<Rightarrow> string \<Rightarrow> exn + json" where
  "args_subscript arguments key =
     (case map_of arguments key of None \<Rightarrow> Inl (Exn KeyError (repr_str key)) | Some v \<Rightarrow> Inr v)"

text \<open>\<^verbatim>\<open>{v[key]}\<close> inside an f-string.\<close>

definition fmt_field :: "json \<Rightarrow> string \<Rightarrow> exn + string" where
  "fmt_field v key = bind_exn (subscript v key) (\<lambda>x. Inr (py_str x))"

text \<open>\<^verbatim>\<open>{v['author']['username']}\<close> inside an f-string.\<close>

definition fmt_author :: "json \<Rightarrow> exn + string" where
  "fmt_author v = bind_exn (subscript v ''author'') (\<lambda>a. fmt_field a ''username'')"

text \<open>\<^verbatim>\<open>{', '.join(article.get('tagList', []))}\<close> inside an f-string.\<close>

definition fmt_tags :: "json \<Rightarrow> exn + string" where
  "fmt_tags article = bind_exn (dict_get article ''tagList'' (JList [])) (\<lambda>tags. py_join '', '' tags)"

text \<open>The six statements of the loop body of the \<^verbatim>\<open>get_articles\<close> tool, for one article.\<close>

definition articles_entry :: "json \<Rightarrow> exn + string" where
  "articles_entry article =
     bind_exn (fmt_field article ''title'') (\<lambda>title.
     bind_exn (fmt_author article) (\<lambda>username.
     bind_exn (fmt_field article ''slug'') (\<lambda>slug.
     bind_exn (fmt_field article ''description'') (\<lambda>description.
     bind_exn (fmt_tags article) (\<lambda>tags.
     bind_exn (fmt_field article ''favoritesCount'') (\<lambda>favorites.
     bind_exn (fmt_field article ''createdAt'') (\<lambda>created.
       Inr (''**'' @ title @ ''** (by '' @ username @ '')'' @ [CHR 0x0A]
            @ ''Slug: '' @ slug @ [CHR 0x0A]
            @ ''Description: '' @ description @ [CHR 0x0A]
            @ ''Tags: '' @ tags @ [CHR 0x0A]
            @ ''Favorites: '' @ favorites @ [CHR 0x0A]
            @ ''Created: '' @ created @ [CHR 0x0A, CHR 0x0A]))))))))"

text \<open>The four statements of the loop body of the \<^verbatim>\<open>search_articles\<close> tool.\<close>

definition search_entry :: "json \<Rightarrow> exn + string" where
  "search_entry article =
     bind_exn (fmt_field article ''title'') (\<lambda>title.
     bind_exn (fmt_author article) (\<lambda>username.
     bind_exn (fmt_field article ''slug'') (\<lambda>slug.
     bind_exn (fmt_field article ''description'') (\<lambda>description.
     bind_exn (fmt_tags article) (\<lambda>tags.
       Inr (''**'' @ title @ ''** (by '' @ username @ '')'' @ [CHR 0x0A]
            @ ''Slug: '' @ slug @ [CHR 0x0A]
            @ ''Description: '' @ description @ [CHR 0x0A]
            @ ''Tags: '' @ tags @ [CHR 0x0A, CHR 0x0A]))))))"

text \<open>The two statements of the loop body of the \<^verbatim>\<open>get_article_comments\<close> tool.\<close>

definition comment_entry :: "json \<Rightarrow> exn + string" where
  "comment_entry comment =
     bind_exn (fmt_author comment) (\<lambda>username.
     bind_exn (fmt_field comment ''createdAt'') (\<lambda>created.
     bind_exn (fmt_field comment ''body'') (\<lambda>body.
       Inr (''**'' @ username @ ''** ('' @ created @ ''):'' @ [CHR 0x0A]
            @ body @ [CHR 0x0A, CHR 0x0A]))))"

text \<open>A \<^verbatim>\<open>for\<close> loop that appends one entry per item to the text built so far.\<close>

fun append_entries :: "(json \<Rightarrow> exn + string) \<Rightarrow> json list \<Rightarrow> string \<Rightarrow> exn + string" where
  "append_entries entry [] text = Inr text"
| "append_entries entry (x # xs) text =
     bind_exn (entry x) (\<lambda>s. append_entries entry xs (text @ s))"

definition tool_get_articles :: "http \<Rightarrow> client \<Rightarrow> kwargs \<Rightarrow> exn + item list" where
  "tool_get_articles h c arguments =
     bind_exn (get_articles h c (args_get arguments ''tag'' JNull) (args_get arguments ''author'' JNull)
                 (args_get arguments ''favorited'' JNull) (args_get arguments ''limit'' (JInt 20))
                 (args_get arguments ''offset'' (JInt 0))) (\<lambda>result.
     bind_exn (dict_get result ''articlesCount'' (JInt 0)) (\<lambda>count.
     bind_exn (dict_get result ''articles'' (JList [])) (\<lambda>articles.
     bind_exn (iterate articles) (\<lambda>items.
     bind_exn (append_entries articles_entry items
                 (''Found '' @ py_str count @ '' articles.'' @ [CHR 0x0A, CHR 0x0A])) (\<lambda>articles_text.
       Inr [text_item articles_text])))))"

definition tool_get_article :: "http \<Rightarrow> client \<Rightarrow> kwargs \<Rightarrow> exn + item list" where
  "tool_get_article h c arguments =
     bind_exn (args_subscript arguments ''slug'') (\<lambda>slug.
     bind_exn (get_article h c slug) (\<lambda>result.
     bind_exn (dict_get result ''article'' (JObj [])) (\<lambda>article.
     bind_exn (fmt_field article ''title'') (\<lambda>title.
     bind_exn (fmt_author article) (\<lambda>username.
     bind_exn (fmt_field article ''slug'') (\<lambda>aslug.
     bind_exn (fmt_field article ''description'') (\<lambda>description.
     bind_exn (fmt_field article ''body'') (\<lambda>body.
     bind_exn (fmt_tags article) (\<lambda>tags.
     bind_exn (fmt_field article ''favoritesCount'') (\<lambda>favorites.
     bind_exn (fmt_field article ''createdAt'') (\<lambda>created.
     bind_exn (fmt_field article ''updatedAt'') (\<lambda>updated.
       Inr [text_item
              (''**'' @ title @ ''**'' @ [CHR 0x0A]
               @ ''By: '' @ username @ [CHR 0x0A]
               @ ''Slug: '' @ aslug @ [CHR 0x0A]
               @ ''Description: '' @ description @ [CHR 0x0A, CHR 0x0A]
               @ ''**Content:**'' @ [CHR 0x0A] @ body @ [CHR 0x0A, CHR 0x0A]
               @ ''Tags: '' @ tags @ [CHR 0x0A]
               @ ''Favorites: '' @ favorites @ [CHR 0x0A]
               @ ''Created: '' @ created @ [CHR 0x0A]
               @ ''Updated: '' @ updated @ [CHR 0x0A])]))))))))))))"

definition tool_get_article_comments :: "http \<Rightarrow> client \<Rightarrow> kwargs \<Rightarrow> exn + item list" where
  "tool_get_article_comments h c arguments =
     bind_exn (args_subscript arguments ''slug'') (\<lambda>slug.
     bind_exn (get_article_comments h c slug) (\<lambda>result.
     bind_exn (dict_get result ''comments'' (JList [])) (\<lambda>comments.
       if \<not> truthy comments then
         Inr [text_item (''No comments found for article '' @ quoted (py_str slug))]
       else
     bind_exn (py_len comments) (\<lambda>n.
     bind_exn (iterate comments) (\<lambda>items.
     bind_exn (append_entries comment_entry items
                 (''Comments for article '' @ quoted (py_str slug) @ '' ('' @ str_nat n @ '' total):''
                  @ [CHR 0x0A, CHR 0x0A])) (\<lambda>comments_text.
       Inr [text_item comments_text]))))))"

definition tool_get_profile :: "http \<Rightarrow> client \<Rightarrow> kwargs \<Rightarrow> exn + item list" where
  "tool_get_profile h c arguments =
     bind_exn (args_subscript arguments ''username'') (\<lambda>username.
     bind_exn (get_profile h c username) (\<lambda>result.
     bind_exn (dict_get result ''profile'' (JObj [])) (\<lambda>profile.
     bind_exn (fmt_field profile ''username'') (\<lambda>name.
     bind_exn (dict_get profile ''bio'' JNull) (\<lambda>bio.
     bind_exn (if truthy bio then bind_exn (fmt_field profile ''bio'') (\<lambda>b. Inr (''Bio: '' @ b @ [CHR 0x0A]))
               else Inr []) (\<lambda>bio_line.
     bind_exn (dict_get profile ''image'' JNull) (\<lambda>image.
     bind_exn (if truthy image then bind_exn (fmt_field profile ''image'') (\<lambda>i. Inr (''Image: '' @ i @ [CHR 0x0A]))
               else Inr []) (\<lambda>image_line.
     bind_exn (dict_get profile ''following'' JNull) (\<lambda>following.
       Inr [text_item
              (''**Profile: '' @ name @ ''**'' @ [CHR 0x0A]
               @ bio_line @ image_line
               @ ''Following: '' @ (if truthy following then ''Yes'' else ''No'') @ [CHR 0x0A])])))))))))"

definition tool_get_tags :: "http \<Rightarrow> client \<Rightarrow> kwargs \<Rightarrow> exn + item list" where
  "tool_get_tags h c arguments =
     bind_exn (get_tags h c) (\<lambda>result.
     bind_exn (dict_get result ''tags'' (JList [])) (\<lambda>tags.
       if \<not> truthy tags then Inr [text_item ''No tags found'']
       else
     bind_exn (py_len tags) (\<lambda>n.
     bind_exn (py_join '', '' tags) (\<lambda>joined.
       Inr [text_item (''Available tags ('' @ str_nat n @ '' total):'' @ [CHR 0x0A] @ joined)]))))"

definition tool_search_articles :: "http \<Rightarrow> client \<Rightarrow> kwargs \<Rightarrow> exn + item list" where
  "tool_search_articles h c arguments =
     bind_exn (args_subscript arguments ''query'') (\<lambda>query.
     bind_exn (search_articles h c query (args_get arguments ''limit'' (JInt 10))) (\<lambda>result.
     bind_exn (dict_get result ''articles'' (JList [])) (\<lambda>articles.
       if \<not> truthy articles then
         Inr [text_item (''No articles found matching '' @ quoted (py_str query))]
       else
     bind_exn (py_len articles) (\<lambda>n.
     bind_exn (iterate articles) (\<lambda>items.
     bind_exn (append_entries search_entry items
                 (''Search results for '' @ quoted (py_str query) @ '' ('' @ str_nat n @ '' found):''
                  @ [CHR 0x0A, CHR 0x0A])) (\<lambda>search_text.
       Inr [text_item search_text]))))))"

definition tool_health_check :: "http \<Rightarrow> client \<Rightarrow> kwargs \<Rightarrow> exn + item list" where
  "tool_health_check h c arguments =
     bind_exn (health_check h c) (\<lambda>result.
     bind_exn (dict_get result ''status'' (JStr ''unknown'')) (\<lambda>status.
     bind_exn (dict_get result ''message'' (JStr ''No message'')) (\<lambda>msg.
     bind_exn (dict_get result ''timestamp'' (JStr ''Unknown'')) (\<lambda>timestamp.
       Inr [text_item
              (''**API Health Status**'' @ [CHR 0x0A]
               @ ''Status: '' @ py_str status @ [CHR 0x0A]
               @ ''Message: '' @ py_str msg @ [CHR 0x0A]
               @ ''Timestamp: '' @ py_str timestamp @ [CHR 0x0A]
               @ ''Base URL: '' @ base_url c @ [CHR 0x0A])]))))"

text \<open>The names that \<^verbatim>\<open>list_tools\<close> declares.\<close>

definition tool_names :: "string list" where
  "tool_names =
     [''get_articles'', ''get_article'', ''get_article_comments'', ''get_profile'', ''get_tags'',
      ''search_articles'', ''health_check'']"

text \<open>
  The body of the \<^verbatim>\<open>try\<close> statement: the chain of comparisons of \<open>name\<close>, in the
  order of the source.
\<close>

definition call_tool_body :: "http \<Rightarrow> client \<Rightarrow> string \<Rightarrow> kwargs \<Rightarrow> exn + item list" where
  "call_tool_body h c name arguments =
     (if name = ''get_articles'' then tool_get_articles h c arguments
      else if name = ''get_article'' then tool_get_article h c arguments
      else if name = ''get_article_comments'' then tool_get_article_comments h c arguments
      else if name = ''get_profile'' then tool_get_profile h c arguments
      else if name = ''get_tags'' then tool_get_tags h c arguments
      else if name = ''search_articles'' then tool_search_articles h c arguments
      else if name = ''health_check'' then tool_health_check h c arguments
      else Inr [text_item (''Unknown tool: '' @ name)])"

text \<open>\<^verbatim>\<open>call_tool\<close>: the \<^verbatim>\<open>try\<close> statement with its handler for \<^verbatim>\<open>Exception\<close>.\<close>

definition call_tool :: "http \<Rightarrow> client \<Rightarrow> string \<Rightarrow> kwargs \<Rightarrow> item list" where
  "call_tool h c name arguments =
     (case call_tool_body h c name arguments of
        Inr result \<Rightarrow> result
      | Inl e \<Rightarrow> [text_item (''Error executing '' @ name @ '': '' @ message e)])"


section \<open>The Exploration Engine\<close>

text \<open>
  Modelled from the spec: the module of \<^verbatim>\<open>ExplorationAgent\<close> is not among the
  sources; its operation \<^verbatim>\<open>explore\<close> follows the component design of the Exploration
  Engine. A probe of a path yields the raw response or a transport failure with its text.
\<close>

datatype 'raw probe_result = Transport_failure string | Probe_response 'raw

text \<open>
  Modelled from the spec: what the design leaves to collaborators and to tuning is taken
  as given: the probe, the classification of a response into observations, the paths a
  response refers to, the normal form of a path, the gateway's choice of the next target
  (\<open>None\<close> once its retries are used up), the stopping policy, the wording of the
  summary, the root path used when no starting endpoints are given, and the number of
  consecutive failures after which an endpoint counts as unreachable.
\<close>

record 'raw explorer =
  probe :: "string \<Rightarrow> 'raw probe_result"
  classify :: "string \<Rightarrow> nat \<Rightarrow> 'raw \<Rightarrow> observation list"
  extract_paths :: "'raw \<Rightarrow> string list"
  normalize :: "string \<Rightarrow> string"
  gateway_select :: "string list \<Rightarrow> observation list \<Rightarrow> string option"
  stopping_policy :: "observation list \<Rightarrow> nat \<Rightarrow> bool"
  summarize :: "observation list \<Rightarrow> string"
  root_path :: string
  failure_threshold :: nat

text \<open>Modelled from the spec: the states of the engine's state machine.\<close>

datatype phase = Idle | Probing | Deciding | Converged | ExhaustedBudget

text \<open>
  Modelled from the spec: what the engine keeps track of: the frontier in discovery order,
  the paths already dequeued, the endpoints marked unreachable, the latest count of
  consecutive failures of each endpoint, the observation log, the iterations done.
\<close>

record exploration_state =
  phase :: phase
  frontier :: "string list"
  dequeued :: "string list"
  unreachable :: "string list"
  failures :: "(string \<times> nat) list"
  log :: "observation list"
  iterations_used :: nat

text \<open>
  Modelled from the spec: how deep a path lies, as the number of its separators; a
  top-level resource lies less deep than a resource nested in it.
\<close>

definition depth :: "string \<Rightarrow> nat" where
  "depth p = length (filter (\<lambda>c. c = CHR ''/'') p)"

text \<open>
  Modelled from the spec: the deterministic ordering policy: the least deep path of the
  frontier, the one discovered first among equally deep ones.
\<close>

fun shallowest :: "string list \<Rightarrow> string option" where
  "shallowest [] = None"
| "shallowest (p # ps) =
     (case shallowest ps of
        None \<Rightarrow> Some p
      | Some q \<Rightarrow> if depth q < depth p then Some q else Some p)"

text \<open>
  Modelled from the spec: the next probe target: the gateway's choice when it names a path
  of the frontier, the ordering policy otherwise.
\<close>

definition select_target :: "'raw explorer \<Rightarrow> exploration_state \<Rightarrow> string option" where
  "select_target x st =
     (case gateway_select x (frontier st) (log st) of
        Some p \<Rightarrow> if p \<in> set (frontier st) then Some p else shallowest (frontier st)
      | None \<Rightarrow> shallowest (frontier st))"

text \<open>Modelled from the spec: the consecutive failures counted for an endpoint so far.\<close>

definition failure_count :: "exploration_state \<Rightarrow> string \<Rightarrow> nat" where
  "failure_count st p = (case map_of (failures st) p of None \<Rightarrow> 0 | Some n \<Rightarrow> n)"

text \<open>
  Modelled from the spec: one iteration on target \<open>p\<close>. The target leaves the frontier.
  A transport failure is logged as an observation of category \<open>Error\<close> and counted, and
  the endpoint is tried again later unless its consecutive failures have reached the
  threshold. A response is classified, the failure count of the endpoint starts again at
  zero, and the paths the response refers to join the frontier unless already dequeued,
  queued or unreachable.
\<close>

definition probe_step :: "'raw explorer \<Rightarrow> exploration_state \<Rightarrow> string \<Rightarrow> exploration_state" where
  "probe_step x st p =
     (let i = Suc (iterations_used st);
          rest = filter (\<lambda>q. q \<noteq> p) (frontier st);
          seen = p # dequeued st
      in case probe x p of
           Transport_failure msg \<Rightarrow>
             (let n = Suc (failure_count st p);
                  gone = (failure_threshold x \<le> n)
              in st\<lparr>phase := Deciding,
                    frontier := (if gone then rest else rest @ [p]),
                    dequeued := seen,
                    unreachable := (if gone then p # unreachable st else unreachable st),
                    failures := (p, n) # failures st,
                    log := log st @ [\<lparr>category = Error, observation = msg, source_path = p,
                                       iteration_index = i\<rparr>],
                    iterations_used := i\<rparr>)
         | Probe_response raw \<Rightarrow>
             (let found = remdups (map (normalize x) (extract_paths x raw));
                  fresh = filter (\<lambda>q. q \<notin> set seen \<and> q \<notin> set rest \<and> q \<notin> set (unreachable st)) found
              in st\<lparr>phase := Deciding,
                    frontier := rest @ fresh,
                    dequeued := seen,
                    failures := (p, 0) # failures st,
                    log := log st @ classify x p i raw,
                    iterations_used := i\<rparr>))"

text \<open>
  Modelled from the spec: the loop, on the budget that remains; the budget
  \<^verbatim>\<open>max_iterations\<close> is a natural number (the design gives no meaning to a negative
  one). With no budget left the engine ends in \<open>ExhaustedBudget\<close>; with nothing left to
  probe, or when the stopping policy signals sufficient coverage after an iteration, it
  ends in \<open>Converged\<close>.
\<close>

fun explore_loop :: "'raw explorer \<Rightarrow> nat \<Rightarrow> exploration_state \<Rightarrow> exploration_state" where
  "explore_loop x 0 st = st\<lparr>phase := ExhaustedBudget\<rparr>"
| "explore_loop x (Suc remaining) st =
     (case select_target x st of
        None \<Rightarrow> st\<lparr>phase := Converged\<rparr>
      | Some p \<Rightarrow>
          (let st' = probe_step x (st\<lparr>phase := Probing\<rparr>) p in
           if stopping_policy x (log st') remaining then st'\<lparr>phase := Converged\<rparr>
           else explore_loop x remaining st'))"

text \<open>
  Modelled from the spec: initialization seeds the frontier with the starting endpoints
  if given, else with the root path.
\<close>

definition initial_state :: "'raw explorer \<Rightarrow> string list option \<Rightarrow> exploration_state" where
  "initial_state x starting_endpoints =
     \<lparr>phase = Idle,
      frontier = (case starting_endpoints of
                    None \<Rightarrow> [root_path x]
                  | Some es \<Rightarrow> remdups (map (normalize x) es)),
      dequeued = [], unreachable = [], failures = [], log = [], iterations_used = 0\<rparr>"

text \<open>Modelled from the spec: the state in which a run of the engine ends.\<close>

definition explore_final :: "'raw explorer \<Rightarrow> string list option \<Rightarrow> nat \<Rightarrow> exploration_state" where
  "explore_final x starting_endpoints max_iter =
     explore_loop x max_iter (initial_state x starting_endpoints)"

text \<open>
  Modelled from the spec: the operation \<^verbatim>\<open>explore\<close>. Its result reports failure only
  if no observation of category \<open>Endpoint\<close> was recorded.
\<close>

definition explore :: "'raw explorer \<Rightarrow> string list option \<Rightarrow> nat \<Rightarrow> exploration_result" where
  "explore x starting_endpoints max_iter =
     (let st = explore_final x starting_endpoints max_iter
      in \<lparr>success = list_ex (\<lambda>obs. category obs = Endpoint) (log st),
          iterations = int (iterations_used st),
          summary = summarize x (log st),
          observations = log st\<rparr>)"

section \<open>The Scaffold Generator\<close>

text \<open>
  Modelled from the spec: the module of \<^verbatim>\<open>CodeGeneratorAgent\<close> is not among the
  sources; its operation \<^verbatim>\<open>generate_code\<close> follows the component design of the
  Scaffold Generator. The names of the files and the rendering of each piece are taken
  as given.
\<close>

record generator =
  client_file :: string
  server_file :: string
  schema_file :: "string \<Rightarrow> string"
  seed_file :: "string \<Rightarrow> string"
  render_client_method :: "endpoint_spec \<Rightarrow> string"
  render_tool :: "endpoint_spec \<Rightarrow> string"
  render_schema :: "table_spec \<Rightarrow> string"
  render_seed :: "table_spec \<Rightarrow> string"

text \<open>
  Modelled from the spec: the files to emit, in order: the client with one request method
  per endpoint, the tool server with one tool definition per endpoint, and for every table
  a schema declaration and a seed scaffold.
\<close>

definition planned_files :: "generator \<Rightarrow> string \<Rightarrow> api_spec \<Rightarrow> (string \<times> string) list" where
  "planned_files g output_dir sp =
     [(path_join output_dir (client_file g), concat (map (render_client_method g) (endpoints sp))),
      (path_join output_dir (server_file g), concat (map (render_tool g) (endpoints sp)))]
     @ concat (map (\<lambda>t. [(path_join output_dir (schema_file g (table_name t)), render_schema g t),
                           (path_join output_dir (seed_file g (table_name t)), render_seed g t)])
                   (tables (database sp)))"

text \<open>Modelled from the spec: the file system, a map from paths to contents.\<close>

type_synonym file_system = "string \<rightharpoonup> string"

text \<open>
  Modelled from the spec: writing the planned files. Whether a write to a path succeeds is
  given by \<open>writable\<close>. A failed write is fatal for that file only: the files written
  before and after it stay, and the result lists the files that were written and whether
  every write succeeded.
\<close>

fun write_files ::
  "(string \<Rightarrow> bool) \<Rightarrow> (string \<times> string) list \<Rightarrow> file_system \<Rightarrow> string list \<times> bool \<times> file_system" where
  "write_files writable [] fs = ([], True, fs)"
| "write_files writable ((path, content) # rest) fs =
     (if writable path then
        (case write_files writable rest (fs(path \<mapsto> content)) of
           (written, ok, fs') \<Rightarrow> (path # written, ok, fs'))
      else
        (case write_files writable rest fs of
           (written, ok, fs') \<Rightarrow> (written, False, fs')))"

text \<open>
  Modelled from the spec: the operation \<^verbatim>\<open>generate_code\<close>, from the file system
  before to the result and the file system after. A specification without endpoints
  yields failure and no files.
\<close>

definition generate_code ::
  "generator \<Rightarrow> (string \<Rightarrow> bool) \<Rightarrow> string \<Rightarrow> file_system \<Rightarrow> api_spec \<Rightarrow> scaffold_result \<times> file_system" where
  "generate_code g writable output_dir fs sp =
     (if endpoints sp = [] then (\<lparr>code_success = False, generated_files = []\<rparr>, fs)
      else
        (case write_files writable (planned_files g output_dir sp) fs of
           (written, ok, fs') \<Rightarrow> (\<lparr>code_success = ok, generated_files = written\<rparr>, fs')))"

subsection \<open>A server to run the client and the tools against\<close>

definition article_hello :: json where
  "article_hello =
     JObj [(''slug'', JStr ''hello-world''), (''title'', JStr ''Hello World''),
           (''description'', JStr ''A first post''), (''body'', JStr ''Nothing to see''),
           (''tagList'', JList [JStr ''intro'']), (''favoritesCount'', JInt 2),
           (''createdAt'', JStr ''2024-01-01''), (''updatedAt'', JStr ''2024-01-02''),
           (''author'', JObj [(''username'', JStr ''jake'')])]"

definition article_rust :: json where
  "article_rust =
     JObj [(''slug'', JStr ''rust''), (''title'', JStr ''Ownership''),
           (''description'', JStr ''Borrowing''), (''body'', JStr ''Say HELLO to the borrow checker''),
           (''tagList'', JList []), (''favoritesCount'', JInt 0),
           (''createdAt'', JStr ''2024-02-01''), (''updatedAt'', JStr ''2024-02-01''),
           (''author'', JObj [(''username'', JStr ''ann'')])]"

definition article_other :: json where
  "article_other =
     JObj [(''slug'', JStr ''other''), (''title'', JStr ''Other''),
           (''description'', JStr ''Unrelated''), (''body'', JStr ''Text''),
           (''tagList'', JList []), (''favoritesCount'', JInt 0),
           (''createdAt'', JStr ''2024-03-01''), (''updatedAt'', JStr ''2024-03-01''),
           (''author'', JObj [(''username'', JStr ''bob'')])]"

definition sample_page :: json where
  "sample_page =
     JObj [(''articles'', JList [article_hello, article_other, article_rust]),
           (''articlesCount'', JInt 3)]"

text \<open>
  The server answers the article list with three articles, the tag list with status 404,
  one profile and the health check with status 200 and a body that is not JSON, and is
  not reachable on any other URL.
\<close>

definition sample_http :: http where
  "sample_http timeout method url kw =
     (if url = ''http://localhost:3002/api/articles'' then
        Responds \<lparr>status_code = 200, status_error = [],
                  body = Inr sample_page\<rparr>
      else if url = ''http://localhost:3002/api/tags'' then
        Responds \<lparr>status_code = 404, status_error = ''Client error 404 Not Found'',
                  body = Inl (Exn ValueError ''Expecting value'')\<rparr>
      else if url = ''http://localhost:3002/api/profiles/jake'' then
        Responds \<lparr>status_code = 200, status_error = [],
                  body = Inl (Exn ValueError ''Expecting value'')\<rparr>
      else if url = ''http://localhost:3002/health'' then
        Responds \<lparr>status_code = 200, status_error = [],
                  body = Inl (Exn ValueError ''Expecting value'')\<rparr>
      else Raises (Exn HTTPError ''All connection attempts failed''))"

definition sample_client :: client where
  "sample_client = client_init Map.empty"


section \<open>Properties of the driver\<close>

lemma stage_steps_append: "stage_steps (xs @ ys) = stage_steps xs @ stage_steps ys"
  by (induction xs) (auto split: option.splits)

lemma stage_steps_observation_lines: "stage_steps (observation_lines i obs) = []"
  by (induction obs arbitrary: i) auto

lemma stage_steps_map_Print: "stage_steps (map (\<lambda>x. Print (f x)) xs) = []"
  by (induction xs) auto

lemma observation_lines_prints: "e \<in> set (observation_lines i obs) \<Longrightarrow> is_print e"
  by (induction obs arbitrary: i) auto

lemma stage_steps_segments [simp]:
  "stage_steps (phase1_events k a) = [Started Exploration]"
  "stage_steps (report_events r) = []"
  "stage_steps (phase2_events r a) = [Started Synthesis]"
  "stage_steps (phase3_events sp d) = [Started Generation]"
  "stage_steps (complete_events cr d) = []"
  by (simp_all add: phase1_events_def report_events_def phase2_events_def phase3_events_def
      complete_events_def stage_steps_append stage_steps_observation_lines stage_steps_map_Print
      split: option.splits)

lemma phase1_events_members:
  "e \<in> set (phase1_events k a) \<Longrightarrow>
     is_print e \<or> e = New_LLMClient k \<or> e = New_ExplorationAgent (target_url a) (max_iterations a)
     \<or> e = Call_explore (endpoints_arg a)"
  by (auto simp: phase1_events_def split: option.splits if_splits)

lemma report_events_prints: "e \<in> set (report_events r) \<Longrightarrow> is_print e"
  by (auto simp: report_events_def dest: observation_lines_prints split: if_splits)

lemma phase2_events_members:
  "e \<in> set (phase2_events r a) \<Longrightarrow>
     is_print e \<or> e = New_SpecificationAgent \<or> e = Call_generate_spec (observations r) (target_url a)"
  by (auto simp: phase2_events_def)

lemma phase3_events_members:
  "e \<in> set (phase3_events sp d) \<Longrightarrow>
     is_print e \<or> e = Makedirs d \<or> e = New_CodeGeneratorAgent d \<or> e = Call_generate_code sp"
  by (auto simp: phase3_events_def)

lemma complete_events_prints: "e \<in> set (complete_events cr d) \<Longrightarrow> is_print e"
  by (auto simp: complete_events_def)

lemma report_events_lines: "set (observation_lines 1 (observations r)) \<subseteq> set (report_events r)"
  by (cases "observations r = []") (auto simp: report_events_def)

lemma report_events_fields:
  "Print (''Success: '' @ str_bool (success r)) \<in> set (report_events r)"
  "Print (''Iterations: '' @ str_int (iterations r)) \<in> set (report_events r)"
  "Print ([CHR 0x0A] @ ''Summary:'' @ [CHR 0x0A] @ summary r @ [CHR 0x0A]) \<in> set (report_events r)"
  by (simp_all add: report_events_def)

lemma main_trace_dirs:
  assumes "e \<in> set (fst (main w a))" and "e = Makedirs d' \<or> e = New_CodeGeneratorAgent d'"
  shows "d' = path_join (output_arg a) ''cloned-env''"
  using assms
  by (auto simp: main_def Let_def split: if_splits option.splits
      dest: phase1_events_members report_events_prints phase2_events_members
        phase3_events_members complete_events_prints)

text \<open>
  Claim C1 asks for exit status 1 whenever a stage returns a result with
  \<^verbatim>\<open>success = false\<close>. The driver tests the flag of the second and of the third stage
  but only prints that of the first. In the run below exploration reports failure; with
  \<^verbatim>\<open>explore\<close> the driver returns normally (status 0), and with \<^verbatim>\<open>clone\<close> it goes on
  through both later stages and returns normally as well.
\<close>

theorem main_ignores_failed_exploration:
  "\<not> success (ExplorationAgent_explore sample_world ''sk-test'' (target_url explore_args)
        (max_iterations explore_args) (endpoints_arg explore_args))
   \<and> Return_explore failed_exploration \<in> set (fst (main sample_world explore_args))
   \<and> exit_code (snd (main sample_world explore_args)) = 0
   \<and> Return_explore failed_exploration \<in> set (fst (main sample_world clone_args))
   \<and> exit_code (snd (main sample_world clone_args)) = 0
   \<and> stage_steps (fst (main sample_world clone_args)) = pipeline_order"
  by (simp add: main_def Let_def sample_world_def explore_args_def clone_args_def
      failed_exploration_def stage_steps_append pipeline_order_def)

text \<open>
  Claim C2 says that \<^verbatim>\<open>main\<close> exits with status 1, before any stage and any gateway
  client, whenever the variable \<^verbatim>\<open>ANTHROPIC_API_KEY\<close> is unset when it runs. Two runs
  with the variable unset at entry end otherwise. In the first a \<^verbatim>\<open>.env\<close> file defines
  the variable: \<^verbatim>\<open>load_dotenv()\<close> sets it, the gateway client is constructed with it,
  exploration runs and the process ends with status 0. In the second the command line has
  no arguments: \<^verbatim>\<open>parse_args()\<close> ends the process with status 2 before the variable is
  read.
\<close>

theorem main_entry_unset_key_counterexample:
  "os_environ dotenv_process ''ANTHROPIC_API_KEY'' = None
   \<and> exit_code (snd (main_entry dotenv_process sample_world)) = 0
   \<and> New_LLMClient ''sk-test'' \<in> set (fst (main_entry dotenv_process sample_world))
   \<and> stage_steps (fst (main_entry dotenv_process sample_world))
       = [Started Exploration, Finished Exploration]
   \<and> os_environ usage_error_process ''ANTHROPIC_API_KEY'' = None
   \<and> exit_code (snd (main_entry usage_error_process sample_world)) = 2"
  by (simp add: main_entry_def load_dotenv_def dotenv_process_def usage_error_process_def
      main_def Let_def explore_args_def stage_steps_append phase1_events_def)

text \<open>
  Claim C2, amended. If the variable \<^verbatim>\<open>ANTHROPIC_API_KEY\<close> is unset in the environment
  of the process and not defined by the \<^verbatim>\<open>.env\<close> file, and \<^verbatim>\<open>parse_args()\<close> returns,
  then \<^verbatim>\<open>main\<close> exits with status 1, and all it has done before is print the error
  message: no stage operation is called and no gateway client is constructed.
\<close>

theorem main_entry_missing_key_exits_1:
  assumes "os_environ p ''ANTHROPIC_API_KEY'' = None"
    and "dotenv_file p ''ANTHROPIC_API_KEY'' = None"
    and "parse_args p = Inr a"
  shows "exit_code (snd (main_entry p w)) = 1
       \<and> fst (main_entry p w) = [Print ''Error: ANTHROPIC_API_KEY environment variable not set'']
       \<and> stage_steps (fst (main_entry p w)) = []
       \<and> (\<forall>k. New_LLMClient k \<notin> set (fst (main_entry p w)))"
  using assms by (simp add: main_entry_def load_dotenv_def main_def)

text \<open>
  The same on a concrete run: an empty environment, no \<^verbatim>\<open>.env\<close> file and the
  \<^verbatim>\<open>clone\<close> command.
\<close>

theorem main_entry_missing_key_exits_1_witness:
  "os_environ no_key_process ''ANTHROPIC_API_KEY'' = None
   \<and> dotenv_file no_key_process ''ANTHROPIC_API_KEY'' = None
   \<and> parse_args no_key_process = Inr clone_args
   \<and> exit_code (snd (main_entry no_key_process sample_world)) = 1
   \<and> stage_steps (fst (main_entry no_key_process sample_world)) = []"
proof -
  have h: "os_environ no_key_process ''ANTHROPIC_API_KEY'' = None"
    and d: "dotenv_file no_key_process ''ANTHROPIC_API_KEY'' = None"
    and a: "parse_args no_key_process = Inr clone_args"
    by (simp_all add: no_key_process_def)
  from main_entry_missing_key_exits_1 [OF h d a, of sample_world] h d a show ?thesis by simp
qed

text \<open>
  Claim C3. In every run the calls of and returns from the stage operations form an
  initial part of the sequence: explore called, explore returned, generate_spec called,
  generate_spec returned, generate_code called, generate_code returned. When the result of
  \<^verbatim>\<open>generate_spec\<close> has its flag unset the process exits with status 1 and
  \<^verbatim>\<open>generate_code\<close> is never called; when the result of \<^verbatim>\<open>generate_code\<close> has its
  flag unset the process exits with status 1.
\<close>

theorem main_stages_sequential:
  "prefix (stage_steps (fst (main w a))) pipeline_order
   \<and> (\<forall>sr. Return_generate_spec sr \<in> set (fst (main w a)) \<and> \<not> spec_success sr \<longrightarrow>
          snd (main w a) = SysExit 1
          \<and> stage_steps (fst (main w a)) =
              [Started Exploration, Finished Exploration, Started Synthesis, Finished Synthesis])
   \<and> (\<forall>cr. Return_generate_code cr \<in> set (fst (main w a)) \<and> \<not> code_success cr \<longrightarrow>
          snd (main w a) = SysExit 1)"
proof (intro conjI allI impI)
  show "prefix (stage_steps (fst (main w a))) pipeline_order"
    by (simp add: main_def Let_def stage_steps_append pipeline_order_def split: option.splits)
next
  fix sr
  assume h: "Return_generate_spec sr \<in> set (fst (main w a)) \<and> \<not> spec_success sr"
  then have eq: "\<exists>k. environ w ''ANTHROPIC_API_KEY'' = Some k \<and> k \<noteq> [] \<and> command a \<noteq> Explore \<and>
     sr = SpecificationAgent_generate_spec w k
       (observations (ExplorationAgent_explore w k (target_url a) (max_iterations a) (endpoints_arg a)))
       (target_url a)"
    by (auto simp: main_def Let_def split: if_splits option.splits
        dest: phase1_events_members report_events_prints phase2_events_members
          phase3_events_members complete_events_prints)
  with h show "snd (main w a) = SysExit 1"
    by (auto simp: main_def Let_def)
  from eq h show "stage_steps (fst (main w a)) =
      [Started Exploration, Finished Exploration, Started Synthesis, Finished Synthesis]"
    by (auto simp: main_def Let_def stage_steps_append)
next
  fix cr
  assume h: "Return_generate_code cr \<in> set (fst (main w a)) \<and> \<not> code_success cr"
  then show "snd (main w a) = SysExit 1"
    by (auto simp: main_def Let_def split: if_splits option.splits
        dest: phase1_events_members report_events_prints phase2_events_members
          phase3_events_members complete_events_prints)
qed

text \<open>
  Two concrete \<^verbatim>\<open>clone\<close> runs: one where specification synthesis fails, one where code
  generation fails.
\<close>

theorem main_stages_sequential_witness:
  "Return_generate_spec \<lparr>spec_success = False, spec_specification = empty_spec\<rparr>
     \<in> set (fst (main failed_spec_world clone_args))
   \<and> snd (main failed_spec_world clone_args) = SysExit 1
   \<and> stage_steps (fst (main failed_spec_world clone_args)) =
       [Started Exploration, Finished Exploration, Started Synthesis, Finished Synthesis]
   \<and> Return_generate_code \<lparr>code_success = False, generated_files = []\<rparr>
     \<in> set (fst (main failed_code_world clone_args))
   \<and> snd (main failed_code_world clone_args) = SysExit 1"
proof -
  have h1: "Return_generate_spec \<lparr>spec_success = False, spec_specification = empty_spec\<rparr>
     \<in> set (fst (main failed_spec_world clone_args))"
    by (simp add: main_def Let_def failed_spec_world_def sample_world_def clone_args_def
        explore_args_def)
  have h2: "Return_generate_code \<lparr>code_success = False, generated_files = []\<rparr>
     \<in> set (fst (main failed_code_world clone_args))"
    by (simp add: main_def Let_def failed_code_world_def sample_world_def clone_args_def
        explore_args_def)
  from main_stages_sequential [of failed_spec_world clone_args]
       main_stages_sequential [of failed_code_world clone_args] h1 h2
  show ?thesis by (auto simp del: fst_conv snd_conv)
qed

text \<open>
  Claim C6. With the \<^verbatim>\<open>explore\<close> command no event of the run belongs to specification
  synthesis or code generation and no directory is created. When the credential is set,
  the exploration operation is called once and returns, the run ends by returning, and
  the trace is Phase 1, the returned result, and the printed report of that result
  (its success flag, its iteration count, its summary and one line per observation).
\<close>

theorem main_explore_only:
  assumes "command a = Explore"
  shows "(\<forall>e \<in> set (fst (main w a)).
            stage_step_of e \<in> {None, Some (Started Exploration), Some (Finished Exploration)}
            \<and> e \<noteq> New_SpecificationAgent
            \<and> (\<forall>d. e \<noteq> Makedirs d \<and> e \<noteq> New_CodeGeneratorAgent d))
       \<and> (\<forall>k. environ w ''ANTHROPIC_API_KEY'' = Some k \<and> k \<noteq> [] \<longrightarrow>
            stage_steps (fst (main w a)) = [Started Exploration, Finished Exploration]
            \<and> snd (main w a) = Returned
            \<and> (let r = ExplorationAgent_explore w k (target_url a) (max_iterations a) (endpoints_arg a)
               in fst (main w a) = phase1_events k a @ [Return_explore r] @ report_events r @ [Print []]
                \<and> Print (''Success: '' @ str_bool (success r)) \<in> set (report_events r)
                \<and> Print (''Iterations: '' @ str_int (iterations r)) \<in> set (report_events r)
                \<and> Print ([CHR 0x0A] @ ''Summary:'' @ [CHR 0x0A] @ summary r @ [CHR 0x0A])
                    \<in> set (report_events r)
                \<and> set (observation_lines 1 (observations r)) \<subseteq> set (report_events r)))"
proof (intro conjI ballI allI impI)
  fix e assume "e \<in> set (fst (main w a))"
  with assms have "is_print e \<or> stage_step_of e = Some (Started Exploration)
       \<or> stage_step_of e = Some (Finished Exploration) \<or> (\<exists>k. e = New_LLMClient k)
       \<or> e = New_ExplorationAgent (target_url a) (max_iterations a)"
    by (auto simp: main_def Let_def split: if_splits option.splits
        dest: phase1_events_members report_events_prints)
  then show "stage_step_of e \<in> {None, Some (Started Exploration), Some (Finished Exploration)}"
    and "e \<noteq> New_SpecificationAgent" and "\<And>d. e \<noteq> Makedirs d" and "\<And>d. e \<noteq> New_CodeGeneratorAgent d"
    by (auto elim!: is_print.elims)
next
  fix k assume k: "environ w ''ANTHROPIC_API_KEY'' = Some k \<and> k \<noteq> []"
  with assms show "stage_steps (fst (main w a)) = [Started Exploration, Finished Exploration]"
    by (simp add: main_def Let_def stage_steps_append)
  from k assms show "snd (main w a) = Returned"
    by (simp add: main_def Let_def)
  from k assms show "let r = ExplorationAgent_explore w k (target_url a) (max_iterations a) (endpoints_arg a)
               in fst (main w a) = phase1_events k a @ [Return_explore r] @ report_events r @ [Print []]
                \<and> Print (''Success: '' @ str_bool (success r)) \<in> set (report_events r)
                \<and> Print (''Iterations: '' @ str_int (iterations r)) \<in> set (report_events r)
                \<and> Print ([CHR 0x0A] @ ''Summary:'' @ [CHR 0x0A] @ summary r @ [CHR 0x0A])
                    \<in> set (report_events r)
                \<and> set (observation_lines 1 (observations r)) \<subseteq> set (report_events r)"
    using report_events_lines [of "ExplorationAgent_explore w k (target_url a) (max_iterations a) (endpoints_arg a)"]
      report_events_fields [of "ExplorationAgent_explore w k (target_url a) (max_iterations a) (endpoints_arg a)"]
    by (simp add: main_def Let_def)
qed

text \<open>
  A concrete \<^verbatim>\<open>explore\<close> run with the credential set.
\<close>

theorem main_explore_only_witness:
  "command explore_args = Explore
   \<and> environ sample_world ''ANTHROPIC_API_KEY'' = Some ''sk-test''
   \<and> stage_steps (fst (main sample_world explore_args)) = [Started Exploration, Finished Exploration]
   \<and> snd (main sample_world explore_args) = Returned
   \<and> (\<forall>d. Makedirs d \<notin> set (fst (main sample_world explore_args)))"
proof -
  have h: "command explore_args = Explore" by (simp add: explore_args_def)
  have k: "environ sample_world ''ANTHROPIC_API_KEY'' = Some ''sk-test'' \<and> ''sk-test'' \<noteq> []"
    by (simp add: sample_world_def)
  from main_explore_only [OF h, of sample_world] h k show ?thesis by blast
qed

text \<open>
  Claim C7. In a run that calls \<^verbatim>\<open>generate_code\<close>, the directory
  \<open>d = os.path.join(output, "cloned-env")\<close> is created and handed to the code generator's
  constructor before the call, no other directory is created or handed over, and the
  result comes from the generator working on \<open>d\<close>. For an \<^verbatim>\<open>--output\<close> value that
  is not empty and does not end in a slash, \<open>d\<close> is that value followed by
  \<^verbatim>\<open>/cloned-env\<close>.
\<close>

theorem main_output_dir:
  assumes "Call_generate_code sp \<in> set (fst (main w a))"
  shows "let d = path_join (output_arg a) ''cloned-env'';
             before_call = takeWhile (\<lambda>e. e \<noteq> Call_generate_code sp) (fst (main w a))
         in Makedirs d \<in> set before_call
          \<and> New_CodeGeneratorAgent d \<in> set before_call
          \<and> (\<forall>d'. Makedirs d' \<in> set (fst (main w a)) \<or> New_CodeGeneratorAgent d' \<in> set (fst (main w a))
                 \<longrightarrow> d' = d)
          \<and> (\<exists>k. environ w ''ANTHROPIC_API_KEY'' = Some k
                 \<and> Return_generate_code (CodeGeneratorAgent_generate_code w k d sp) \<in> set (fst (main w a)))
          \<and> (output_arg a \<noteq> [] \<and> last (output_arg a) \<noteq> CHR ''/'' \<longrightarrow> d = output_arg a @ ''/cloned-env'')"
proof -
  define d where "d = path_join (output_arg a) ''cloned-env''"
  from assms obtain k r sr cr where
    k: "environ w ''ANTHROPIC_API_KEY'' = Some k" and
    sp: "sp = spec_specification sr" and
    cr: "cr = CodeGeneratorAgent_generate_code w k d sp" and
    tr: "fst (main w a) = (phase1_events k a @ [Return_explore r] @ report_events r
           @ phase2_events r a @ [Return_generate_spec sr])
           @ phase3_events sp d @ Return_generate_code cr # (if code_success cr then complete_events cr d else [Print ''Failed to generate code''])"
    by (auto simp: main_def Let_def d_def split: if_splits option.splits
        dest: phase1_events_members report_events_prints phase2_events_members
          phase3_events_members complete_events_prints)
  have pre: "\<forall>e \<in> set (phase1_events k a @ [Return_explore r] @ report_events r
           @ phase2_events r a @ [Return_generate_spec sr]). e \<noteq> Call_generate_code sp
           \<and> (\<forall>d'. e \<noteq> Makedirs d' \<and> e \<noteq> New_CodeGeneratorAgent d')"
    by (auto dest: phase1_events_members report_events_prints phase2_events_members)
  have tw: "takeWhile (\<lambda>e. e \<noteq> Call_generate_code sp) (fst (main w a)) =
      (phase1_events k a @ [Return_explore r] @ report_events r
           @ phase2_events r a @ [Return_generate_spec sr]) @ butlast (phase3_events sp d)"
    unfolding tr using pre by (subst takeWhile_append2) (auto simp: phase3_events_def)
  have j: "output_arg a \<noteq> [] \<and> last (output_arg a) \<noteq> CHR ''/'' \<longrightarrow> d = output_arg a @ ''/cloned-env''"
    by (simp add: d_def path_join_def)
  have m1: "Makedirs d \<in> set (butlast (phase3_events sp d))"
    and m2: "New_CodeGeneratorAgent d \<in> set (butlast (phase3_events sp d))"
    by (simp_all add: phase3_events_def)
  have only: "\<forall>d'. Makedirs d' \<in> set (fst (main w a)) \<or> New_CodeGeneratorAgent d' \<in> set (fst (main w a))
                 \<longrightarrow> d' = d"
    unfolding d_def by (blast dest: main_trace_dirs)
  have ret: "Return_generate_code (CodeGeneratorAgent_generate_code w k d sp) \<in> set (fst (main w a))"
    unfolding tr cr by simp
  show ?thesis
    unfolding Let_def d_def [symmetric] tw using m1 m2 only ret j k by auto
qed

text \<open>
  A concrete \<^verbatim>\<open>clone\<close> run with the default \<^verbatim>\<open>--output\<close> value.
\<close>

theorem main_output_dir_witness:
  "Call_generate_code empty_spec \<in> set (fst (main sample_world clone_args))
   \<and> Makedirs ''./output/cloned-env''
       \<in> set (takeWhile (\<lambda>e. e \<noteq> Call_generate_code empty_spec) (fst (main sample_world clone_args)))
   \<and> New_CodeGeneratorAgent ''./output/cloned-env''
       \<in> set (takeWhile (\<lambda>e. e \<noteq> Call_generate_code empty_spec) (fst (main sample_world clone_args)))"
proof -
  have h: "Call_generate_code empty_spec \<in> set (fst (main sample_world clone_args))"
    by (simp add: main_def Let_def sample_world_def clone_args_def explore_args_def phase3_events_def)
  have d: "path_join (output_arg clone_args) ''cloned-env'' = ''./output/cloned-env''"
    by (simp add: path_join_def clone_args_def explore_args_def)
  from main_output_dir [OF h] h d show ?thesis by (simp add: Let_def)
qed

section \<open>Properties of the Exploration Engine and the Scaffold Generator\<close>

lemma probe_step_iterations: "iterations_used (probe_step x st p) = Suc (iterations_used st)"
  by (simp add: probe_step_def Let_def split: probe_result.splits)

lemma explore_loop_iterations:
  "iterations_used (explore_loop x n st) \<le> iterations_used st + n"
proof (induction n arbitrary: st)
  case 0
  then show ?case by simp
next
  case (Suc n)
  show ?case
  proof (cases "select_target x st")
    case None
    then show ?thesis by simp
  next
    case (Some p)
    define st' where "st' = probe_step x (st\<lparr>phase := Probing\<rparr>) p"
    have used: "iterations_used st' = Suc (iterations_used st)"
      by (simp add: st'_def probe_step_iterations)
    show ?thesis
    proof (cases "stopping_policy x (log st') n")
      case True
      with Some used show ?thesis by (simp add: st'_def [symmetric])
    next
      case False
      from Suc.IH [of st'] used have "iterations_used (explore_loop x n st') \<le> iterations_used st + Suc n"
        by simp
      with Some False show ?thesis by (simp add: st'_def [symmetric])
    qed
  qed
qed

text \<open>
  Claim C4. For every budget \<open>N\<close>, the \<open>iterations\<close> field of the result of
  \<^verbatim>\<open>explore\<close> run with \<^verbatim>\<open>max_iterations = N\<close> is at most \<open>N\<close>.
\<close>

theorem explore_iterations_bounded:
  "iterations (explore x starting_endpoints N) \<le> int N"
  using explore_loop_iterations [of x N "initial_state x starting_endpoints"]
  by (simp add: explore_def explore_final_def Let_def initial_state_def)

lemma write_files_eq:
  "write_files w fl fs =
     (filter w (map fst fl), list_all w (map fst fl),
      fs ++ map_of (rev (filter (\<lambda>pc. w (fst pc)) fl)))"
proof (induction fl arbitrary: fs)
  case Nil
  then show ?case by simp
next
  case (Cons pc rest)
  obtain p c where pc: "pc = (p, c)" by (cases pc)
  show ?case
  proof (cases "w p")
    case True
    have ih: "write_files w rest (fs(p \<mapsto> c)) =
        (filter w (map fst rest), list_all w (map fst rest),
         fs(p \<mapsto> c) ++ map_of (rev (filter (\<lambda>pc. w (fst pc)) rest)))"
      by (rule Cons.IH)
    have step: "write_files w ((p, c) # rest) fs =
        (case write_files w rest (fs(p \<mapsto> c)) of (written, ok, fs') \<Rightarrow> (p # written, ok, fs'))"
      using True by simp
    have maps: "fs(p \<mapsto> c) ++ m = fs ++ (m ++ [p \<mapsto> c] ++ m)" for m :: "string \<rightharpoonup> string"
      by (rule ext) (simp add: map_add_def split: option.splits)
    show ?thesis
      unfolding pc step ih using True by (simp add: maps)
  next
    case False
    then show ?thesis by (simp add: pc Cons.IH)
  qed
qed

lemma map_add_twice: "(fs ++ m) ++ m = fs ++ (m :: 'a \<rightharpoonup> 'b)"
  by (rule ext) (simp add: map_add_def split: option.splits)

text \<open>
  Claim C5. Generating twice from an unchanged specification yields the same
  \<open>generated_files\<close>: the second run, started on the file system the first one left,
  reports the same paths and leaves every file as it is; the reported paths do not depend
  on what the file system held before; they are the planned paths of the specification
  whose writes succeed (none for a specification without endpoints).
\<close>

theorem generate_code_idempotent:
  "generated_files (fst (generate_code g w d (snd (generate_code g w d fs sp)) sp))
     = generated_files (fst (generate_code g w d fs sp))
   \<and> snd (generate_code g w d (snd (generate_code g w d fs sp)) sp) = snd (generate_code g w d fs sp)
   \<and> generated_files (fst (generate_code g w d fs' sp)) = generated_files (fst (generate_code g w d fs sp))
   \<and> generated_files (fst (generate_code g w d fs sp))
       = (if endpoints sp = [] then [] else filter w (map fst (planned_files g d sp)))"
proof -
  have files: "generated_files (fst (generate_code g w d f sp))
       = (if endpoints sp = [] then [] else filter w (map fst (planned_files g d sp)))" for f
    by (simp add: generate_code_def write_files_eq)
  have fs: "snd (generate_code g w d f sp)
       = (if endpoints sp = [] then f
          else f ++ map_of (rev (filter (\<lambda>pc. w (fst pc)) (planned_files g d sp))))" for f
    by (simp add: generate_code_def write_files_eq)
  show ?thesis
    by (simp add: files fs map_add_twice)
qed

section \<open>Properties of the generated client and tool server\<close>

lemma bind_exn_Inr: "bind_exn m f = Inr r \<longleftrightarrow> (\<exists>v. m = Inr v \<and> f v = Inr r)"
  by (cases m) (simp_all add: bind_exn_def)

lemma sample_api_url: "api_url sample_client = ''http://localhost:3002/api''"
  by (simp add: sample_client_def client_init_def getenv_default_def)

lemma tool_results_single:
  "tool_get_articles h c arguments = Inr r \<Longrightarrow> \<exists>t. r = [text_item t]"
  "tool_get_article h c arguments = Inr r \<Longrightarrow> \<exists>t. r = [text_item t]"
  "tool_get_article_comments h c arguments = Inr r \<Longrightarrow> \<exists>t. r = [text_item t]"
  "tool_get_profile h c arguments = Inr r \<Longrightarrow> \<exists>t. r = [text_item t]"
  "tool_get_tags h c arguments = Inr r \<Longrightarrow> \<exists>t. r = [text_item t]"
  "tool_search_articles h c arguments = Inr r \<Longrightarrow> \<exists>t. r = [text_item t]"
  "tool_health_check h c arguments = Inr r \<Longrightarrow> \<exists>t. r = [text_item t]"
  by (auto simp: tool_get_articles_def tool_get_article_def tool_get_article_comments_def
      tool_get_profile_def tool_get_tags_def tool_search_articles_def tool_health_check_def
      bind_exn_Inr split: if_splits)

lemma call_tool_body_single:
  "call_tool_body h c name arguments = Inr r \<Longrightarrow> \<exists>t. r = [text_item t]"
  by (auto simp: call_tool_body_def split: if_splits dest: tool_results_single)

lemma call_tool_body_unknown:
  "name \<notin> set tool_names \<Longrightarrow> call_tool_body h c name arguments = Inr [text_item (''Unknown tool: '' @ name)]"
  by (simp add: call_tool_body_def tool_names_def)

lemma call_tool_body_known_error:
  "call_tool_body h c name arguments = Inl e \<Longrightarrow> name \<in> set tool_names"
  by (auto simp: call_tool_body_def tool_names_def split: if_splits)

text \<open>
  Claim C8. \<^verbatim>\<open>call_tool\<close> returns, for every name and every argument dictionary, a
  list of exactly one text item. For a name outside the seven declared tools the text is
  \<^verbatim>\<open>Unknown tool:\<close> followed by the name; when the body of the \<^verbatim>\<open>try\<close> statement
  raises, the name is one of the seven and the text is \<^verbatim>\<open>Error executing\<close>, the name
  and the text of the exception.
\<close>

theorem call_tool_total:
  "(\<exists>t. call_tool h c name arguments = [text_item t])
   \<and> (name \<notin> set tool_names \<longrightarrow>
         call_tool h c name arguments = [text_item (''Unknown tool: '' @ name)])
   \<and> (\<forall>e. call_tool_body h c name arguments = Inl e \<longrightarrow>
         name \<in> set tool_names
         \<and> call_tool h c name arguments = [text_item (''Error executing '' @ name @ '': '' @ message e)])"
proof (intro conjI allI impI)
  show "\<exists>t. call_tool h c name arguments = [text_item t]"
    by (cases "call_tool_body h c name arguments")
       (auto simp: call_tool_def dest: call_tool_body_single)
next
  assume "name \<notin> set tool_names"
  then show "call_tool h c name arguments = [text_item (''Unknown tool: '' @ name)]"
    by (simp add: call_tool_def call_tool_body_unknown)
next
  fix e assume e: "call_tool_body h c name arguments = Inl e"
  then show "name \<in> set tool_names" by (rule call_tool_body_known_error)
  from e show "call_tool h c name arguments = [text_item (''Error executing '' @ name @ '': '' @ message e)]"
    by (simp add: call_tool_def)
qed

text \<open>
  An unknown tool name, and the tool \<^verbatim>\<open>get_article\<close> called without its \<^verbatim>\<open>slug\<close>.
\<close>

theorem call_tool_total_witness:
  "''nope'' \<notin> set tool_names
   \<and> call_tool sample_http sample_client ''nope'' [] = [text_item ''Unknown tool: nope'']
   \<and> call_tool_body sample_http sample_client ''get_article'' [] = Inl (Exn KeyError (repr_str ''slug''))
   \<and> call_tool sample_http sample_client ''get_article'' []
       = [text_item (''Error executing get_article: '' @ repr_str ''slug'')]"
proof -
  have n: "''nope'' \<notin> set tool_names"
    by (simp add: tool_names_def)
  have e: "call_tool_body sample_http sample_client ''get_article'' [] = Inl (Exn KeyError (repr_str ''slug''))"
    by (simp add: call_tool_body_def tool_get_article_def args_subscript_def bind_exn_def)
  from call_tool_total [of sample_http sample_client "''nope''" "[]"] n
  have "call_tool sample_http sample_client ''nope'' [] = [text_item (''Unknown tool: '' @ ''nope'')]"
    by blast
  moreover from call_tool_total [of sample_http sample_client "''get_article''" "[]"] e
  have "call_tool sample_http sample_client ''get_article'' []
       = [text_item (''Error executing '' @ ''get_article'' @ '': '' @ message (Exn KeyError (repr_str ''slug'')))]"
    by blast
  ultimately show ?thesis using n e by simp
qed

lemma py_lower_Inr: "py_lower v = Inr s \<Longrightarrow> \<exists>t. v = JStr t \<and> s = map lower_char t"
  by (cases v) (auto)

lemma field_contains_True:
  "field_contains ql a key = Inr True \<Longrightarrow>
     \<exists>s. dict_get a key (JStr []) = Inr (JStr s) \<and> sublist ql (map lower_char s)"
  by (auto simp: field_contains_def bind_exn_Inr dest!: py_lower_Inr)

lemma article_matches_True:
  assumes "article_matches ql a = Inr True"
  shows "\<exists>key \<in> {''title'', ''description'', ''body''}.
           \<exists>s. dict_get a key (JStr []) = Inr (JStr s) \<and> sublist ql (map lower_char s)"
proof -
  from assms have "field_contains ql a ''title'' = Inr True
      \<or> field_contains ql a ''description'' = Inr True
      \<or> field_contains ql a ''body'' = Inr True"
    by (auto simp: article_matches_def bind_exn_Inr split: if_splits)
  then show ?thesis
    by (blast dest: field_contains_True)
qed

lemma search_loop_result:
  assumes "search_loop ql (JInt limit) items acc = Inr ms" and "int (length acc) < limit"
  shows "\<exists>new. ms = acc @ new \<and> subseq new items \<and> int (length ms) \<le> limit
           \<and> (\<forall>a \<in> set new. article_matches ql a = Inr True)"
  using assms
proof (induction items arbitrary: acc)
  case Nil
  then show ?case by simp
next
  case (Cons a rest)
  from Cons.prems(1) obtain m where m: "article_matches ql a = Inr m"
    by (auto simp: bind_exn_Inr)
  show ?case
  proof (cases m)
    case False
    with m Cons.prems have "search_loop ql (JInt limit) rest acc = Inr ms"
      by (simp add: bind_exn_def)
    from Cons.IH [OF this Cons.prems(2)] show ?thesis
      by (auto intro: subseq_Cons')
  next
    case True
    show ?thesis
    proof (cases "int (length (acc @ [a])) \<ge> limit")
      case full: True
      with m True Cons.prems have "ms = acc @ [a]"
        by (simp add: bind_exn_def Let_def)
      with m True Cons.prems(2) show ?thesis
        by (intro exI [of _ "[a]"]) auto
    next
      case more: False
      with m True Cons.prems have "search_loop ql (JInt limit) rest (acc @ [a]) = Inr ms"
        by (simp add: bind_exn_def Let_def)
      moreover from more have "int (length (acc @ [a])) < limit" by simp
      ultimately obtain new where new: "ms = (acc @ [a]) @ new" "subseq new rest"
          "int (length ms) \<le> limit" "\<forall>a \<in> set new. article_matches ql a = Inr True"
        using Cons.IH by blast
      with m True show ?thesis
        by (intro exI [of _ "a # new"]) auto
    qed
  qed
qed

text \<open>
  Claim C9. When \<^verbatim>\<open>search_articles\<close>, called with a query string and a limit of at
  least 1, returns, its result is the dictionary of a list \<open>ms\<close> under \<^verbatim>\<open>articles\<close>
  and the length of \<open>ms\<close> under \<^verbatim>\<open>articlesCount\<close>; \<open>ms\<close> has at most \<open>limit\<close>
  elements; it is drawn, in order, from the \<^verbatim>\<open>articles\<close> of the one page fetched with
  \<^verbatim>\<open>GET /articles\<close>, \<^verbatim>\<open>limit=50\<close>, \<^verbatim>\<open>offset=0\<close>; and every element has the
  lower-cased query as a substring of its lower-cased title, description or body.
\<close>

theorem search_articles_result:
  assumes "search_articles h c (JStr query) (JInt limit) = Inr res" and "1 \<le> limit"
  shows "\<exists>ms. res = JObj [(''articles'', JList ms), (''articlesCount'', JInt (int (length ms)))]
         \<and> int (length ms) \<le> limit
         \<and> (\<exists>resp. request h c ''GET'' ''/articles''
                      [(''params'', JObj [(''limit'', JInt 50), (''offset'', JInt 0)])] = Inr resp
              \<and> (ms = [] \<or> (\<exists>page items. subscript resp ''articles'' = Inr page
                                \<and> iterate page = Inr items \<and> subseq ms items)))
         \<and> (\<forall>a \<in> set ms. \<exists>key \<in> {''title'', ''description'', ''body''}.
               \<exists>s. dict_get a key (JStr []) = Inr (JStr s)
                   \<and> sublist (map lower_char query) (map lower_char s))"
proof -
  define rq where "rq = request h c ''GET'' ''/articles''
                      [(''params'', JObj [(''limit'', JInt 50), (''offset'', JInt 0)])]"
  have ga: "get_articles h c JNull JNull JNull (JInt 50) (JInt 0) = rq"
    by (simp add: get_articles_def rq_def)
  from assms(1) obtain resp page0 where resp: "rq = Inr resp"
    and page0: "dict_get resp ''articles'' JNull = Inr page0"
    by (auto simp: search_articles_def ga bind_exn_Inr)
  show ?thesis
  proof (cases "truthy page0")
    case False
    with assms resp page0 have "res = JObj [(''articles'', JList []), (''articlesCount'', JInt 0)]"
      by (simp add: search_articles_def ga bind_exn_def)
    with assms(2) resp show ?thesis
      by (intro exI [of _ "[]"]) (simp add: rq_def)
  next
    case True
    with assms(1) resp page0 obtain page items ms where
      page: "subscript resp ''articles'' = Inr page" and
      items: "iterate page = Inr items" and
      loop: "search_loop (map lower_char query) (JInt limit) items [] = Inr ms" and
      res: "res = JObj [(''articles'', JList ms), (''articlesCount'', JInt (int (length ms)))]"
      by (auto simp: search_articles_def ga bind_exn_Inr)
    from assms(2) have "int (length ([] :: json list)) < limit" by simp
    from search_loop_result [OF loop this]
    have sub: "subseq ms items" and len: "int (length ms) \<le> limit"
      and all: "\<forall>a \<in> set ms. article_matches (map lower_char query) a = Inr True"
      by auto
    from all have "\<forall>a \<in> set ms. \<exists>key \<in> {''title'', ''description'', ''body''}.
               \<exists>s. dict_get a key (JStr []) = Inr (JStr s)
                   \<and> sublist (map lower_char query) (map lower_char s)"
      by (blast dest: article_matches_True)
    with res len sub page items resp show ?thesis
      unfolding rq_def by blast
  qed
qed

text \<open>
  A search for \<^verbatim>\<open>Hello\<close> with limit 2 on the sample server: the first and the third
  article of the page match (one in its title, one in its body).
\<close>

theorem search_articles_result_witness:
  "search_articles sample_http sample_client (JStr ''Hello'') (JInt 2)
     = Inr (JObj [(''articles'', JList [article_hello, article_rust]), (''articlesCount'', JInt 2)])
   \<and> (1::int) \<le> 2
   \<and> int (length [article_hello, article_rust]) \<le> 2
   \<and> request sample_http sample_client ''GET'' ''/articles''
        [(''params'', JObj [(''limit'', JInt 50), (''offset'', JInt 0)])] = Inr sample_page
   \<and> subseq [article_hello, article_rust] [article_hello, article_other, article_rust]"
proof -
  have h: "search_articles sample_http sample_client (JStr ''Hello'') (JInt 2)
     = Inr (JObj [(''articles'', JList [article_hello, article_rust]), (''articlesCount'', JInt 2)])"
    by code_simp
  have l: "(1::int) \<le> 2" by simp
  have p: "request sample_http sample_client ''GET'' ''/articles''
        [(''params'', JObj [(''limit'', JInt 50), (''offset'', JInt 0)])] = Inr sample_page"
    by (simp add: request_def send_def sample_api_url sample_http_def raise_for_status_def
        is_success_def bind_exn_def)
  have i: "iterate (JList [article_hello, article_other, article_rust])
        = Inr [article_hello, article_other, article_rust]"
    by simp
  from search_articles_result [OF h l] obtain ms where
    ms: "JObj [(''articles'', JList [article_hello, article_rust]), (''articlesCount'', JInt 2)]
         = JObj [(''articles'', JList ms), (''articlesCount'', JInt (int (length ms)))]"
    and len: "int (length ms) \<le> 2"
    and sub: "ms = [] \<or> (\<exists>page items. subscript sample_page ''articles'' = Inr page
                \<and> iterate page = Inr items \<and> subseq ms items)"
    unfolding p by auto
  from ms have eq: "ms = [article_hello, article_rust]" by simp
  from sub have "subseq [article_hello, article_rust] [article_hello, article_other, article_rust]"
    unfolding eq by (auto simp: sample_page_def)
  with h l p len show ?thesis unfolding eq by simp
qed

text \<open>
  Claim C10. \<^verbatim>\<open>_request\<close> returns a value only when the HTTP layer produced a response
  with a 2xx status, and the value is the parsed body of that response. In every other
  case it raises an instance of \<^verbatim>\<open>Exception\<close> itself, whose text starts with
  \<^verbatim>\<open>API request failed:\<close> when the failure is an \<^verbatim>\<open>httpx.HTTPError\<close> (a status
  outside 2xx included) and with \<^verbatim>\<open>Request error:\<close> otherwise.
\<close>

theorem request_outcome:
  "(\<forall>v. request h c method path kw = Inr v \<longrightarrow>
         (\<exists>r. h 30 method (api_url c @ path) kw = Responds r \<and> is_success r \<and> body r = Inr v))
   \<and> (\<forall>e. request h c method path kw = Inl e \<longrightarrow>
         exc_class_of e = PlainException
         \<and> (prefix ''API request failed: '' (message e) \<or> prefix ''Request error: '' (message e)))
   \<and> (\<forall>e. h 30 method (api_url c @ path) kw = Raises e \<longrightarrow>
         request h c method path kw =
           Inl (Exn PlainException
                 ((if exc_class_of e = HTTPError then ''API request failed: '' else ''Request error: '')
                  @ message e)))
   \<and> (\<forall>r. h 30 method (api_url c @ path) kw = Responds r \<and> \<not> is_success r \<longrightarrow>
         request h c method path kw = Inl (Exn PlainException (''API request failed: '' @ status_error r)))
   \<and> (\<forall>r e. h 30 method (api_url c @ path) kw = Responds r \<and> is_success r \<and> body r = Inl e \<longrightarrow>
         request h c method path kw =
           Inl (Exn PlainException
                 ((if exc_class_of e = HTTPError then ''API request failed: '' else ''Request error: '')
                  @ message e)))"
  by (cases "h 30 method (api_url c @ path) kw")
     (auto simp: request_def send_def raise_for_status_def bind_exn_def Let_def
           split: sum.splits if_splits)

text \<open>
  The four kinds of outcome on the sample server: a 2xx response with a JSON body, a 404
  response, a 2xx response whose body is not JSON, and a connection failure.
\<close>

theorem request_outcome_witness:
  "request sample_http sample_client ''GET'' ''/articles'' [] = Inr sample_page
   \<and> request sample_http sample_client ''GET'' ''/tags'' []
       = Inl (Exn PlainException ''API request failed: Client error 404 Not Found'')
   \<and> request sample_http sample_client ''GET'' ''/profiles/jake'' []
       = Inl (Exn PlainException ''Request error: Expecting value'')
   \<and> request sample_http sample_client ''GET'' ''/nowhere'' []
       = Inl (Exn PlainException ''API request failed: All connection attempts failed'')"
proof -
  let ?ok = "\<lparr>status_code = 200, status_error = [], body = Inr sample_page\<rparr>"
  let ?missing = "\<lparr>status_code = 404, status_error = ''Client error 404 Not Found'',
                  body = Inl (Exn ValueError ''Expecting value'')\<rparr>"
  let ?garbled = "\<lparr>status_code = 200, status_error = [], body = Inl (Exn ValueError ''Expecting value'')\<rparr>"
  have a: "sample_http 30 ''GET'' (api_url sample_client @ ''/articles'') [] = Responds ?ok"
    and b: "sample_http 30 ''GET'' (api_url sample_client @ ''/tags'') [] = Responds ?missing \<and> \<not> is_success ?missing"
    and c: "sample_http 30 ''GET'' (api_url sample_client @ ''/profiles/jake'') [] = Responds ?garbled
            \<and> is_success ?garbled \<and> body ?garbled = Inl (Exn ValueError ''Expecting value'')"
    and d: "sample_http 30 ''GET'' (api_url sample_client @ ''/nowhere'') []
            = Raises (Exn HTTPError ''All connection attempts failed'')"
    by (simp_all add: sample_api_url sample_http_def is_success_def)
  have ok: "request sample_http sample_client ''GET'' ''/articles'' [] = Inr sample_page"
    by (simp add: request_def send_def a raise_for_status_def is_success_def bind_exn_def)
  from request_outcome [of sample_http sample_client "''GET''" "''/articles''" "[]"] ok
  have "\<exists>r. sample_http 30 ''GET'' (api_url sample_client @ ''/articles'') [] = Responds r
            \<and> is_success r \<and> body r = Inr sample_page"
    by blast
  moreover from request_outcome [of sample_http sample_client "''GET''" "''/tags''" "[]"] b
  have "request sample_http sample_client ''GET'' ''/tags'' []
       = Inl (Exn PlainException (''API request failed: '' @ status_error ?missing))"
    by blast
  moreover from request_outcome [of sample_http sample_client "''GET''" "''/profiles/jake''" "[]"] c
  have "request sample_http sample_client ''GET'' ''/profiles/jake'' []
       = Inl (Exn PlainException
               ((if exc_class_of (Exn ValueError ''Expecting value'') = HTTPError
                 then ''API request failed: '' else ''Request error: '')
                @ message (Exn ValueError ''Expecting value'')))"
    by blast
  moreover from request_outcome [of sample_http sample_client "''GET''" "''/nowhere''" "[]"] d
  have "request sample_http sample_client ''GET'' ''/nowhere'' []
       = Inl (Exn PlainException
               ((if exc_class_of (Exn HTTPError ''All connection attempts failed'') = HTTPError
                 then ''API request failed: '' else ''Request error: '')
                @ message (Exn HTTPError ''All connection attempts failed'')))"
    by blast
  ultimately show ?thesis using ok by simp
qed

end
